theory Spec2Isabelle
  imports Complex_Main "HOL-Library.AList"
begin

section \<open>Values shared by the two modules\<close>

text \<open>
  The exceptions the two modules raise or let through. \<open>RuntimeError\<close> carries its
  message, since the service raises it with two different ones. \<open>JSONDecodeError\<close> is
  what \<^verbatim>\<open>json.loads\<close> raises on text that is not JSON; \<open>OSError\<close> stands for the failure of
  \<^verbatim>\<open>subprocess.Popen\<close> (executable missing or not launchable).
\<close>

datatype error =
    RuntimeError string
  | JSONDecodeError
  | TypeError
  | ValueError
  | AttributeError
  | EOFError
  | TimeoutError
  | OSError

text \<open>A call either returns a value or raises; the state it leaves behind is returned
  beside the outcome, because a Python exception does not undo earlier mutations.\<close>

datatype 'a outcome = Return 'a | Raise error

subsection \<open>Decoded JSON\<close>

text \<open>
  What \<^verbatim>\<open>json.loads\<close> returns: \<^verbatim>\<open>None\<close>, a bool, a number, a string, a list, or a
  dict with string keys (in document order, each key once).
\<close>

datatype json =
    JNull
  | JBool bool
  | JNum real
  | JStr string
  | JArr "json list"
  | JObj "(string \<times> json) list"

text \<open>
  A Python \<^verbatim>\<open>dict\<close> keeps its keys in insertion order. \<open>SingBoxConfig\<close> is a \<^verbatim>\<open>dict\<close>
  subclass built by \<^verbatim>\<open>dict(config)\<close>; when \<^verbatim>\<open>config\<close> is a list of pairs its keys need
  not be strings, so keys are decoded JSON values. Python compares keys with \<^verbatim>\<open>==\<close>, under
  which \<^verbatim>\<open>True\<close> is \<^verbatim>\<open>1\<close> and \<^verbatim>\<open>False\<close> is \<^verbatim>\<open>0\<close>.
\<close>

type_synonym pydict = "(json \<times> json) list"

fun py_key :: "json \<Rightarrow> json" where
  "py_key (JBool b) = JNum (if b then 1 else 0)"
| "py_key j = j"

fun hashable :: "json \<Rightarrow> bool" where
  "hashable (JArr xs) = False"
| "hashable (JObj kvs) = False"
| "hashable j = True"

text \<open>\<^verbatim>\<open>d.get(k)\<close>: the value stored under a key equal to \<open>k\<close>, if any.\<close>

fun dict_get :: "pydict \<Rightarrow> json \<Rightarrow> json option" where
  "dict_get [] k = None"
| "dict_get ((k', v) # d) k = (if py_key k' = py_key k then Some v else dict_get d k)"

text \<open>\<^verbatim>\<open>d[k] = v\<close>: an existing key keeps its place, a new one goes last.\<close>

fun dict_set :: "json \<Rightarrow> json \<Rightarrow> pydict \<Rightarrow> pydict" where
  "dict_set k v [] = [(k, v)]"
| "dict_set k v ((k', v') # d) =
     (if py_key k' = py_key k then (k', v) # d else (k', v') # dict_set k v d)"

text \<open>
  Iterating a decoded value in a \<^verbatim>\<open>for\<close> loop: a list yields its elements, a dict its
  keys, a string its characters; the other values are not iterable.
\<close>

fun py_iter :: "json \<Rightarrow> error + json list" where
  "py_iter (JArr xs) = Inr xs"
| "py_iter (JObj kvs) = Inr (map (\<lambda>kv. JStr (fst kv)) kvs)"
| "py_iter (JStr s) = Inr (map (\<lambda>c. JStr [c]) s)"
| "py_iter j = Inl TypeError"

text \<open>
  \<^verbatim>\<open>dict(config)\<close>. A dict is copied. Anything else must be an iterable of two-element
  iterables, each giving a key and a value: an element that is not iterable or whose key
  is not hashable raises \<^verbatim>\<open>TypeError\<close>, one of another length \<^verbatim>\<open>ValueError\<close>.
\<close>

fun dict_from_pairs :: "json list \<Rightarrow> pydict \<Rightarrow> error + pydict" where
  "dict_from_pairs [] acc = Inr acc"
| "dict_from_pairs (e # es) acc =
     (case py_iter e of
        Inl err \<Rightarrow> Inl TypeError
      | Inr [k, v] \<Rightarrow>
          (if hashable k then dict_from_pairs es (dict_set k v acc) else Inl TypeError)
      | Inr other \<Rightarrow> Inl ValueError)"

fun dict_init :: "json \<Rightarrow> error + pydict" where
  "dict_init (JObj kvs) = Inr (map (\<lambda>kv. (JStr (fst kv), snd kv)) kvs)"
| "dict_init j =
     (case py_iter j of
        Inl err \<Rightarrow> Inl TypeError
      | Inr es \<Rightarrow> dict_from_pairs es [])"

section \<open>singbox.py: SingBoxConfig\<close>

text \<open>
  The names \<^verbatim>\<open>singbox.py\<close> and \<^verbatim>\<open>rpyc_service.py\<close> import from the \<^verbatim>\<open>config\<close> module, which
  is not among the sources: they are parameters of the model. \<open>SINGBOX_INBOUNDS\<close> is the
  allow-list of inbound tags; \<open>None\<close> stands for a value that is absent, and both \<open>None\<close>
  and the empty list are false in \<^verbatim>\<open>if not SINGBOX_INBOUNDS\<close>.
\<close>

record settings =
  DEBUG :: bool
  SSL_CERT_FILE :: string
  SSL_KEY_FILE :: string
  SINGBOX_INBOUNDS :: "string list option"
  SINGBOX_ENABLED :: bool
  SINGBOX_EXECUTABLE_PATH :: string
  SINGBOX_WORKING_DIR :: string

text \<open>The \<^verbatim>\<open>dict\<close> content of a \<^verbatim>\<open>SingBoxConfig\<close> and the three attributes \<^verbatim>\<open>__init__\<close> sets.\<close>

record SingBoxConfig =
  items :: pydict
  ssl_cert :: string
  ssl_key :: string
  peer_ip :: string

text \<open>
  \<^verbatim>\<open>tag = inbound.get('tag'); tag in SINGBOX_INBOUNDS\<close> for an inbound that is a dict.
  The allow-list holds strings, so a missing tag (\<^verbatim>\<open>None\<close>) and a tag that is not a string
  are not in it.
\<close>

fun tag_allowed :: "string list \<Rightarrow> (string \<times> json) list \<Rightarrow> bool" where
  "tag_allowed allow kvs =
     (case map_of kvs ''tag'' of
        Some (JStr t) \<Rightarrow> t \<in> set allow
      | _ \<Rightarrow> False)"

text \<open>
  The loop of \<^verbatim>\<open>_apply_filters\<close>, with \<^verbatim>\<open>filtered_inbounds\<close> as accumulator. Only a dict
  has \<^verbatim>\<open>.get\<close>: any other element raises \<^verbatim>\<open>AttributeError\<close>.
\<close>

fun filter_inbounds :: "string list \<Rightarrow> json list \<Rightarrow> json list \<Rightarrow> error + json list" where
  "filter_inbounds allow [] filtered = Inr filtered"
| "filter_inbounds allow (JObj kvs # rest) filtered =
     (if tag_allowed allow kvs
      then filter_inbounds allow rest (filtered @ [JObj kvs])
      else filter_inbounds allow rest filtered)"
| "filter_inbounds allow (other # rest) filtered = Inl AttributeError"

definition inbounds_key :: json where
  "inbounds_key = JStr ''inbounds''"

text \<open>\<^verbatim>\<open>SingBoxConfig._apply_filters\<close>, on the dict content.\<close>

definition apply_filters :: "string list option \<Rightarrow> pydict \<Rightarrow> error + pydict" where
  "apply_filters allow_list d =
     (case allow_list of
        None \<Rightarrow> Inr d
      | Some allow \<Rightarrow>
          if allow = [] then Inr d
          else
            (case py_iter (case dict_get d inbounds_key of None \<Rightarrow> JArr [] | Some v \<Rightarrow> v) of
               Inl err \<Rightarrow> Inl err
             | Inr inbounds \<Rightarrow>
                 (case filter_inbounds allow inbounds [] of
                    Inl err \<Rightarrow> Inl err
                  | Inr filtered \<Rightarrow> Inr (dict_set inbounds_key (JArr filtered) d))))"

text \<open>
  The argument a caller hands to \<^verbatim>\<open>SingBoxConfig(config, peer_ip)\<close>: the RPC layer passes
  the raw text, and \<^verbatim>\<open>singbox_restart\<close> passes on an already built \<^verbatim>\<open>SingBoxConfig\<close> when
  no core exists. \<^verbatim>\<open>json.loads\<close> itself is a parameter \<open>loads\<close> (\<open>None\<close>: the text is not
  JSON); given anything but text it raises \<^verbatim>\<open>TypeError\<close>.
\<close>

datatype config_arg = RawText string | Built SingBoxConfig

fun json_loads :: "(string \<Rightarrow> json option) \<Rightarrow> config_arg \<Rightarrow> error + json" where
  "json_loads loads (RawText s) =
     (case loads s of None \<Rightarrow> Inl JSONDecodeError | Some j \<Rightarrow> Inr j)"
| "json_loads loads (Built c) = Inl TypeError"

text \<open>\<^verbatim>\<open>SingBoxConfig.__init__\<close>.\<close>

definition SingBoxConfig_init ::
  "settings \<Rightarrow> (string \<Rightarrow> json option) \<Rightarrow> config_arg \<Rightarrow> string \<Rightarrow> error + SingBoxConfig" where
  "SingBoxConfig_init st loads config peer =
     (case json_loads loads config of
        Inl err \<Rightarrow> Inl err
      | Inr j \<Rightarrow>
          (case dict_init j of
             Inl err \<Rightarrow> Inl err
           | Inr d \<Rightarrow>
               (case apply_filters (SINGBOX_INBOUNDS st) d of
                  Inl err \<Rightarrow> Inl err
                | Inr d' \<Rightarrow>
                    Inr \<lparr>items = d', ssl_cert = SSL_CERT_FILE st,
                         ssl_key = SSL_KEY_FILE st, peer_ip = peer\<rparr>)))"

text \<open>
  Predicates used to state what the filter keeps: an entry is a dict, the tag it bears,
  and whether that tag is on the allow-list.
\<close>

fun is_dict :: "json \<Rightarrow> bool" where
  "is_dict (JObj kvs) = True"
| "is_dict j = False"

fun tag_of :: "json \<Rightarrow> string option" where
  "tag_of (JObj kvs) = (case map_of kvs ''tag'' of Some (JStr t) \<Rightarrow> Some t | _ \<Rightarrow> None)"
| "tag_of j = None"

definition tag_in :: "string list \<Rightarrow> json \<Rightarrow> bool" where
  "tag_in allow e = (case tag_of e of Some t \<Rightarrow> t \<in> set allow | None \<Rightarrow> False)"

section \<open>singbox.py: SingBoxCore\<close>

subsection \<open>The operating system, as the core sees it\<close>

text \<open>
  A subprocess is a process id. What the code cannot decide itself is read from the
  \<open>world\<close>: whether a process has exited (\<^verbatim>\<open>poll()\<close> is not \<^verbatim>\<open>None\<close>), whether it outlives
  the five seconds \<^verbatim>\<open>stop\<close> waits after \<^verbatim>\<open>terminate()\<close>, whether \<^verbatim>\<open>Popen\<close> succeeds, what
  \<^verbatim>\<open>get_version\<close> finds, and how a connection answers \<^verbatim>\<open>ping()\<close>. What the code does to the
  outside is appended to \<open>trace\<close>, in program order.
\<close>

type_synonym pid = nat

text \<open>
  What a process prints is read as text (\<^verbatim>\<open>universal_newlines=True\<close>): a line is a Python
  \<^verbatim>\<open>str\<close>, a sequence of Unicode code points. \<open>ascii\<close> writes one from its ASCII spelling.
\<close>

type_synonym ustr = "nat list"

definition ascii :: "string \<Rightarrow> ustr" where
  "ascii s = map of_char s"

datatype hook =
    Peer_on_start
  | Peer_on_stop
  | Peer_on_singbox_start
  | Peer_on_singbox_stop

datatype event =
    Popen pid string string
  | StdinWrite pid pydict
  | StdinClose pid
  | ReaderThread pid bool
  | Terminate pid
  | Kill pid
  | HookThread hook
  | ConnClose nat

record world =
  exited :: "pid \<Rightarrow> bool"
  ignores_terminate :: "pid \<Rightarrow> bool"
  launchable :: bool
  next_pid :: pid
  reported_version :: "string option"
  ping_answer :: "nat \<Rightarrow> unit outcome"
  trace :: "event list"

subsection \<open>The object\<close>

text \<open>
  The attributes \<^verbatim>\<open>SingBoxCore.__init__\<close> sets. \<open>logs_buffer\<close> is the \<^verbatim>\<open>deque(maxlen=100)\<close>,
  oldest line first; \<open>temp_log_buffers\<close> is the dict from \<^verbatim>\<open>id(buf)\<close> to the subscriber's
  own deque. The hook lists hold the closures the service registers.
\<close>

record SingBoxCore =
  executable_path :: string
  working_dir :: string
  version :: "string option"
  process :: "pid option"
  restarting :: bool
  logs_buffer :: "ustr list"
  temp_log_buffers :: "(nat \<times> ustr list) list"
  on_start_funcs :: "hook list"
  on_stop_funcs :: "hook list"

text \<open>
  \<^verbatim>\<open>SingBoxCore.__init__\<close>. \<^verbatim>\<open>get_version\<close> is answered by the world: \<open>reported_version\<close> is
  what it returns, \<open>None\<close> when the executable is missing, exits with an error or prints
  no version. An exception that \<^verbatim>\<open>get_version\<close> does not catch (a \<^verbatim>\<open>PermissionError\<close> of
  \<^verbatim>\<open>check_output\<close>, a \<^verbatim>\<open>UnicodeDecodeError\<close> of \<^verbatim>\<open>decode\<close>) has no counterpart here: the
  constructor is taken to return.
\<close>

definition SingBoxCore_init :: "string \<Rightarrow> string \<Rightarrow> world \<Rightarrow> SingBoxCore" where
  "SingBoxCore_init exe wd w =
     \<lparr>executable_path = exe, working_dir = wd, version = reported_version w,
      process = None, restarting = False, logs_buffer = [], temp_log_buffers = [],
      on_start_funcs = [], on_stop_funcs = []\<rparr>"

text \<open>The property \<^verbatim>\<open>started\<close>.\<close>

definition started :: "SingBoxCore \<Rightarrow> world \<Rightarrow> bool" where
  "started c w = (case process c of None \<Rightarrow> False | Some p \<Rightarrow> \<not> exited w p)"

definition on_start :: "hook \<Rightarrow> SingBoxCore \<Rightarrow> SingBoxCore" where
  "on_start func c = c\<lparr>on_start_funcs := on_start_funcs c @ [func]\<rparr>"

definition on_stop :: "hook \<Rightarrow> SingBoxCore \<Rightarrow> SingBoxCore" where
  "on_stop func c = c\<lparr>on_stop_funcs := on_stop_funcs c @ [func]\<rparr>"

subsection \<open>Log capture and subscribers\<close>

text \<open>\<^verbatim>\<open>deque(maxlen=n).append(x)\<close>: a full deque drops its oldest element first.\<close>

definition deque_append :: "nat \<Rightarrow> 'a list \<Rightarrow> 'a \<Rightarrow> 'a list" where
  "deque_append n xs x =
     (if n = 0 then xs else if length xs < n then xs @ [x] else tl xs @ [x])"

text \<open>\<^verbatim>\<open>deque(iterable, maxlen=n)\<close>: the elements are appended one by one.\<close>

definition deque_init :: "nat \<Rightarrow> 'a list \<Rightarrow> 'a list" where
  "deque_init n xs = foldl (deque_append n) [] xs"

text \<open>
  \<^verbatim>\<open>str.strip()\<close>: leading and trailing whitespace removed. The whitespace of a \<^verbatim>\<open>str\<close> is
  the code points 9 to 13, 28 to 32, U+0085, U+00A0, U+1680, U+2000 to U+200A, U+2028,
  U+2029, U+202F, U+205F and U+3000.
\<close>

definition whitespace :: "nat \<Rightarrow> bool" where
  "whitespace cp =
     (cp \<in> {9, 10, 11, 12, 13, 28, 29, 30, 31, 32, 133, 160, 5760,
             8232, 8233, 8239, 8287, 12288}
      \<or> 8192 \<le> cp \<and> cp \<le> 8202)"

definition strip :: "ustr \<Rightarrow> ustr" where
  "strip s = rev (dropWhile whitespace (rev (dropWhile whitespace s)))"

text \<open>
  The body of the reader loops for a line that was read (\<^verbatim>\<open>if output:\<close>): the stripped
  line goes to the ring and to every registered subscriber's deque.
\<close>

definition capture_line :: "ustr \<Rightarrow> SingBoxCore \<Rightarrow> SingBoxCore" where
  "capture_line output c =
     (let line = strip output in
      c\<lparr>logs_buffer := deque_append 100 (logs_buffer c) line,
        temp_log_buffers :=
          map (\<lambda>kb. (fst kb, deque_append 100 (snd kb) line)) (temp_log_buffers c)\<rparr>)"

text \<open>
  \<^verbatim>\<open>capture_only\<close> and \<^verbatim>\<open>capture_and_debug_log\<close> (they differ in a \<^verbatim>\<open>logger.debug\<close> call only),
  over the results of successive \<^verbatim>\<open>readline()\<close> calls, each paired with whether the process
  had exited when \<^verbatim>\<open>poll()\<close> was asked. An empty read ends the loop once the process has
  exited; the end of the list is the end of the observed run.
\<close>

fun capture_loop :: "(ustr \<times> bool) list \<Rightarrow> SingBoxCore \<Rightarrow> SingBoxCore" where
  "capture_loop [] c = c"
| "capture_loop ((output, gone) # rest) c =
     (if process c = None then c
      else if output \<noteq> [] then capture_loop rest (capture_line output c)
      else if gone then c
      else capture_loop rest c)"

text \<open>
  \<^verbatim>\<open>get_logs\<close> is a context manager. Entering copies the ring into a new deque and registers
  it under \<^verbatim>\<open>id(buf)\<close>, an identity no registered deque has; leaving removes the entry.
\<close>

definition fresh_id :: "nat list \<Rightarrow> nat" where
  "fresh_id ks = Suc (foldr max ks 0)"

definition get_logs_enter :: "SingBoxCore \<Rightarrow> nat \<times> SingBoxCore" where
  "get_logs_enter c =
     (let buf = deque_init 100 (logs_buffer c);
          buf_id = fresh_id (map fst (temp_log_buffers c))
      in (buf_id, c\<lparr>temp_log_buffers := AList.update buf_id buf (temp_log_buffers c)\<rparr>))"

definition get_logs_exit :: "nat \<Rightarrow> SingBoxCore \<Rightarrow> SingBoxCore" where
  "get_logs_exit buf_id c = c\<lparr>temp_log_buffers := AList.delete buf_id (temp_log_buffers c)\<rparr>"

text \<open>
  What the consumer \<^verbatim>\<open>CoreLogsHandler.cast\<close> does with its deque: nothing while it is
  empty (\<^verbatim>\<open>if not logs\<close>), else \<^verbatim>\<open>logs.popleft()\<close>.
\<close>

definition popleft :: "nat \<Rightarrow> SingBoxCore \<Rightarrow> ustr option \<times> SingBoxCore" where
  "popleft buf_id c =
     (case map_of (temp_log_buffers c) buf_id of
        None \<Rightarrow> (None, c)
      | Some [] \<Rightarrow> (None, c)
      | Some (l # ls) \<Rightarrow>
          (Some l, c\<lparr>temp_log_buffers := AList.update buf_id ls (temp_log_buffers c)\<rparr>))"

subsection \<open>The reader and the subscribers as threads\<close>

text \<open>
  The reader thread and the threads that run \<^verbatim>\<open>get_logs\<close> share the ring and the registry
  and take no lock, so they can be switched between any two of their statements. The
  calls each statement makes on the shared objects are single operations of built-in
  types; they are the steps below.

  Line 101 (and 88): \<^verbatim>\<open>self._logs_buffer.append(output)\<close>.
\<close>

definition ring_append :: "ustr \<Rightarrow> SingBoxCore \<Rightarrow> SingBoxCore" where
  "ring_append line c = c\<lparr>logs_buffer := deque_append 100 (logs_buffer c) line\<rparr>"

text \<open>
  Line 103 (and 90): \<^verbatim>\<open>buf.append(output)\<close>, for the deque of identity \<open>k\<close> in the list the
  reader took from the registry. A deque that has left the registry since is seen by no
  one any more.
\<close>

definition buf_append :: "nat \<Rightarrow> ustr \<Rightarrow> SingBoxCore \<Rightarrow> SingBoxCore" where
  "buf_append k line c =
     c\<lparr>temp_log_buffers :=
         map (\<lambda>kb. if fst kb = k then (k, deque_append 100 (snd kb) line) else kb)
           (temp_log_buffers c)\<rparr>"

text \<open>Line 115: \<^verbatim>\<open>buf = deque(self._logs_buffer, maxlen=100)\<close>.\<close>

definition get_logs_copy :: "SingBoxCore \<Rightarrow> ustr list" where
  "get_logs_copy c = deque_init 100 (logs_buffer c)"

text \<open>Line 118: \<^verbatim>\<open>self._temp_log_buffers[buf_id] = buf\<close>.\<close>

definition get_logs_register :: "nat \<Rightarrow> ustr list \<Rightarrow> SingBoxCore \<Rightarrow> SingBoxCore" where
  "get_logs_register buf_id buf c =
     c\<lparr>temp_log_buffers := AList.update buf_id buf (temp_log_buffers c)\<rparr>"

text \<open>
  Where the reader thread stands: in \<^verbatim>\<open>readline()\<close>; past the append to the ring with the
  stripped line in hand, before it reads the registry; or in the \<^verbatim>\<open>for\<close> loop, with the
  deques it still has to append the line to.
\<close>

datatype reader_pc = Waiting | Appended ustr | Delivering ustr "nat list"

fun reader_targets :: "reader_pc \<Rightarrow> nat list" where
  "reader_targets (Delivering line ks) = ks"
| "reader_targets pc = []"

text \<open>
  The shared core, the reader's position, and the deques that threads inside
  \<^verbatim>\<open>get_logs\<close> have made at line 115 and not yet registered at line 118.
\<close>

record log_threads =
  shared :: SingBoxCore
  reader :: reader_pc
  unregistered :: "(nat \<times> ustr list) list"

text \<open>\<^verbatim>\<open>id(buf)\<close> of a new deque differs from the identity of every deque that exists.\<close>

definition new_id :: "log_threads \<Rightarrow> nat" where
  "new_id t =
     fresh_id (map fst (temp_log_buffers (shared t)) @ map fst (unregistered t)
               @ reader_targets (reader t))"

text \<open>
  One step of one thread. The reader: \<open>ReadLine\<close> is lines 98 to 101 for the text
  \<^verbatim>\<open>readline()\<close> returned (an empty text appends nothing), \<open>TakeTargets\<close> is
  \<^verbatim>\<open>list(self._temp_log_buffers.values())\<close> of line 102, \<open>Deliver\<close> is one round of the
  \<^verbatim>\<open>for\<close> loop, or its end. A thread in \<^verbatim>\<open>get_logs\<close>: \<open>Copy\<close> is line 115, \<open>Register\<close> line
  118 for the deque of that identity, \<open>Unsubscribe\<close> lines 123 and 124. \<open>Consume\<close> is the
  consumer's \<^verbatim>\<open>popleft\<close>. A step that is not the next one of its thread changes nothing.
\<close>

datatype log_event =
    ReadLine ustr
  | TakeTargets
  | Deliver
  | Copy
  | Register nat
  | Consume nat
  | Unsubscribe nat

fun log_step :: "log_event \<Rightarrow> log_threads \<Rightarrow> log_threads" where
  "log_step (ReadLine output) t =
     (case reader t of
        Waiting \<Rightarrow>
          if output = [] then t
          else t\<lparr>shared := ring_append (strip output) (shared t),
                 reader := Appended (strip output)\<rparr>
      | _ \<Rightarrow> t)"
| "log_step TakeTargets t =
     (case reader t of
        Appended line \<Rightarrow>
          t\<lparr>reader := Delivering line (map fst (temp_log_buffers (shared t)))\<rparr>
      | _ \<Rightarrow> t)"
| "log_step Deliver t =
     (case reader t of
        Delivering line ks \<Rightarrow>
          (case ks of
             [] \<Rightarrow> t\<lparr>reader := Waiting\<rparr>
           | k # rest \<Rightarrow>
               t\<lparr>shared := buf_append k line (shared t), reader := Delivering line rest\<rparr>)
      | _ \<Rightarrow> t)"
| "log_step Copy t =
     t\<lparr>unregistered := unregistered t @ [(new_id t, get_logs_copy (shared t))]\<rparr>"
| "log_step (Register k) t =
     (case map_of (unregistered t) k of
        None \<Rightarrow> t
      | Some buf \<Rightarrow>
          t\<lparr>shared := get_logs_register k buf (shared t),
            unregistered := AList.delete k (unregistered t)\<rparr>)"
| "log_step (Consume k) t = t\<lparr>shared := snd (popleft k (shared t))\<rparr>"
| "log_step (Unsubscribe k) t = t\<lparr>shared := get_logs_exit k (shared t)\<rparr>"

fun log_run :: "log_event list \<Rightarrow> log_threads \<Rightarrow> log_threads" where
  "log_run [] t = t"
| "log_run (e # es) t = log_run es (log_step e t)"

text \<open>
  The lines appended to the ring during a run, and those subscriber \<open>i\<close> has taken
  during it.
\<close>

fun appended1 :: "log_event \<Rightarrow> log_threads \<Rightarrow> ustr list" where
  "appended1 (ReadLine output) t =
     (if reader t = Waiting \<and> output \<noteq> [] then [strip output] else [])"
| "appended1 e t = []"

fun appended :: "log_event list \<Rightarrow> log_threads \<Rightarrow> ustr list" where
  "appended [] t = []"
| "appended (e # es) t = appended1 e t @ appended es (log_step e t)"

fun taken :: "nat \<Rightarrow> log_event \<Rightarrow> log_threads \<Rightarrow> ustr list" where
  "taken i (Consume j) t =
     (if j = i then (case fst (popleft i (shared t)) of None \<Rightarrow> [] | Some l \<Rightarrow> [l]) else [])"
| "taken i e t = []"

fun consumed :: "nat \<Rightarrow> log_event list \<Rightarrow> log_threads \<Rightarrow> ustr list" where
  "consumed i [] t = []"
| "consumed i (e # es) t = taken i e t @ consumed i es (log_step e t)"

text \<open>The deque of subscriber \<open>i\<close> (empty when \<open>i\<close> is not registered).\<close>

definition pending :: "nat \<Rightarrow> SingBoxCore \<Rightarrow> ustr list" where
  "pending i c = (case map_of (temp_log_buffers c) i of None \<Rightarrow> [] | Some b \<Rightarrow> b)"

text \<open>
  The view of subscriber \<open>i\<close> over a run: what it has taken, then what still waits in
  its deque.
\<close>

definition subscriber_view :: "nat \<Rightarrow> log_event list \<Rightarrow> log_threads \<Rightarrow> ustr list" where
  "subscriber_view i es t = consumed i es t @ pending i (shared (log_run es t))"

text \<open>
  The line that is in the ring already and that the reader has still to append to the
  deque of subscriber \<open>i\<close>: the one in hand before the registry is read, or while \<open>i\<close> is
  among the deques still to go.
\<close>

definition in_flight :: "nat \<Rightarrow> log_threads \<Rightarrow> ustr list" where
  "in_flight i t =
     (case reader t of
        Waiting \<Rightarrow> []
      | Appended line \<Rightarrow> [line]
      | Delivering line ks \<Rightarrow> replicate (count_list ks i) line)"

text \<open>The reader stands between its append to the ring and its reading of the registry.\<close>

definition before_fan_out :: "log_threads \<Rightarrow> bool" where
  "before_fan_out t = (case reader t of Appended line \<Rightarrow> True | _ \<Rightarrow> False)"

text \<open>
  Subscriber \<open>i\<close> stays registered during the run, and its deque holds fewer than 100
  lines whenever the reader appends to it.
\<close>

fun keeps_up1 :: "nat \<Rightarrow> log_event \<Rightarrow> log_threads \<Rightarrow> bool" where
  "keeps_up1 i Deliver t =
     (case reader t of
        Delivering line ks \<Rightarrow>
          (case ks of [] \<Rightarrow> True | k # rest \<Rightarrow> k \<noteq> i \<or> length (pending i (shared t)) < 100)
      | _ \<Rightarrow> True)"
| "keeps_up1 i (Unsubscribe j) t = (j \<noteq> i)"
| "keeps_up1 i e t = True"

fun keeps_up :: "nat \<Rightarrow> log_event list \<Rightarrow> log_threads \<Rightarrow> bool" where
  "keeps_up i [] t = True"
| "keeps_up i (e # es) t = (keeps_up1 i e t \<and> keeps_up i es (log_step e t))"

subsection \<open>start, stop, restart\<close>

text \<open>
  The log-level rule at the head of \<^verbatim>\<open>start\<close>:
  \<^verbatim>\<open>if config.get('log', {}).get('level') == 'silent': config['log']['level'] = 'warn'\<close>.
  A \<^verbatim>\<open>log\<close> value that is not a dict has no \<^verbatim>\<open>.get\<close>.
\<close>

definition silent_to_warn :: "pydict \<Rightarrow> error + pydict" where
  "silent_to_warn d =
     (case dict_get d (JStr ''log'') of
        None \<Rightarrow> Inr d
      | Some (JObj kvs) \<Rightarrow>
          (if map_of kvs ''level'' = Some (JStr ''silent'')
           then Inr (dict_set (JStr ''log'') (JObj (AList.update ''level'' (JStr ''warn'') kvs)) d)
           else Inr d)
      | Some other \<Rightarrow> Inl AttributeError)"

text \<open>
  \<^verbatim>\<open>SingBoxCore.start\<close>. The command line is the executable with \<^verbatim>\<open>run -c stdin\<close>; the
  serialised config is written to the new process's stdin, which is then closed; the
  reader thread and one thread per start hook are started.
\<close>

definition SingBoxCore_start ::
  "settings \<Rightarrow> SingBoxConfig \<Rightarrow> SingBoxCore \<times> world \<Rightarrow> unit outcome \<times> SingBoxCore \<times> world" where
  "SingBoxCore_start st config cw =
     (let c = fst cw; w = snd cw in
      if started c w then (Raise (RuntimeError ''Sing-box is started already''), c, w)
      else
        (case silent_to_warn (items config) of
           Inl err \<Rightarrow> (Raise err, c, w)
         | Inr d \<Rightarrow>
             if \<not> launchable w then (Raise OSError, c, w)
             else
               (let p = next_pid w in
                (Return (),
                 c\<lparr>process := Some p\<rparr>,
                 w\<lparr>exited := (exited w)(p := False),
                   next_pid := Suc p,
                   trace := trace w
                     @ [Popen p (executable_path c) (working_dir c),
                        StdinWrite p d, StdinClose p, ReaderThread p (DEBUG st)]
                     @ map HookThread (on_start_funcs c)\<rparr>))))"

text \<open>
  \<^verbatim>\<open>SingBoxCore.stop\<close>: nothing when not started; else \<^verbatim>\<open>terminate()\<close>, \<^verbatim>\<open>kill()\<close> when the
  wait times out, the handle dropped, one thread per stop hook.
\<close>

definition SingBoxCore_stop :: "SingBoxCore \<times> world \<Rightarrow> SingBoxCore \<times> world" where
  "SingBoxCore_stop cw =
     (let c = fst cw; w = snd cw in
      case process c of
        None \<Rightarrow> (c, w)
      | Some p \<Rightarrow>
          if exited w p then (c, w)
          else
            (c\<lparr>process := None\<rparr>,
             w\<lparr>exited := (exited w)(p := True),
               trace := trace w
                 @ [Terminate p]
                 @ (if ignores_terminate w p then [Kill p] else [])
                 @ map HookThread (on_stop_funcs c)\<rparr>))"

text \<open>
  \<^verbatim>\<open>SingBoxCore.restart\<close>: the \<^verbatim>\<open>finally\<close> clause resets \<open>restarting\<close> whether \<^verbatim>\<open>start\<close>
  returned or raised, and the exception, if any, goes on to the caller.
\<close>

definition SingBoxCore_restart ::
  "settings \<Rightarrow> SingBoxConfig \<Rightarrow> SingBoxCore \<times> world \<Rightarrow> unit outcome \<times> SingBoxCore \<times> world" where
  "SingBoxCore_restart st config cw =
     (let c = fst cw; w = snd cw in
      if restarting c then (Return (), c, w)
      else
        (let stopped = SingBoxCore_stop (c\<lparr>restarting := True\<rparr>, w);
             res = SingBoxCore_start st config stopped
         in (fst res, (fst (snd res))\<lparr>restarting := False\<rparr>, snd (snd res))))"

section \<open>rpyc_service.py: XrayService\<close>

text \<open>
  A connection object of the RPC library: \<open>cid\<close> is its identity (\<^verbatim>\<open>conn is self.connection\<close>),
  \<open>peer\<close> the attribute \<^verbatim>\<open>on_connect\<close> sets (\<open>None\<close>: the object has no such attribute),
  \<open>peername\<close> the host that \<^verbatim>\<open>socket.getpeername\<close> gives for its socket, and \<open>root_attrs\<close>
  the names its root service has, as \<^verbatim>\<open>hasattr\<close> sees them.
\<close>

record Connection =
  cid :: nat
  peer :: "string option"
  peername :: string
  root_attrs :: "string list"

text \<open>
  The classes \<^verbatim>\<open>XRayConfig\<close> and \<^verbatim>\<open>XRayCore\<close> come from the module \<^verbatim>\<open>xray\<close>, which is not
  among the sources. The service is modelled over any implementation of the methods it
  calls on them; each may raise.
\<close>

record ('x, 'xc) xray_api =
  XRayConfig_init :: "string \<Rightarrow> string \<Rightarrow> error + 'xc"
  XRayCore_init :: "world \<Rightarrow> 'x"
  XRayCore_on_start :: "hook \<Rightarrow> 'x \<Rightarrow> 'x"
  XRayCore_on_stop :: "hook \<Rightarrow> 'x \<Rightarrow> 'x"
  XRayCore_start :: "'xc \<Rightarrow> 'x \<times> world \<Rightarrow> unit outcome \<times> 'x \<times> world"
  XRayCore_stop :: "'x \<times> world \<Rightarrow> unit outcome \<times> 'x \<times> world"
  XRayCore_restart :: "'xc \<Rightarrow> 'x \<times> world \<Rightarrow> unit outcome \<times> 'x \<times> world"
  XRayCore_get_logs :: "'x \<Rightarrow> nat \<times> 'x"

text \<open>The three attributes of \<^verbatim>\<open>XrayService\<close>.\<close>

record 'x XrayService =
  core :: "'x option"
  singbox_core :: "SingBoxCore option"
  connection :: "Connection option"

text \<open>
  The object \<^verbatim>\<open>fetch_logs\<close> and \<^verbatim>\<open>fetch_singbox_logs\<close> return. Its thread enters \<^verbatim>\<open>get_logs\<close> of
  the core it was given; \<open>subscription\<close> is the deque registered for it.
\<close>

datatype backend = Xray | SingBox

record CoreLogsHandler =
  handler_core :: backend
  callback :: nat
  active :: bool
  subscription :: nat

subsection \<open>Sessions\<close>

text \<open>Lines 80 to 83 of \<^verbatim>\<open>on_connect\<close>: the candidate becomes the connection, with its peer.\<close>

definition admit :: "Connection \<Rightarrow> 'x XrayService \<Rightarrow> 'x XrayService" where
  "admit conn s = s\<lparr>connection := Some (conn\<lparr>peer := Some (peername conn)\<rparr>)\<rparr>"

text \<open>
  \<^verbatim>\<open>on_connect\<close>. With a connection held, it is pinged; reading its \<^verbatim>\<open>peer\<close> afterwards raises
  \<^verbatim>\<open>AttributeError\<close> when it has none. \<^verbatim>\<open>EOFError\<close>, \<^verbatim>\<open>TimeoutError\<close> and \<^verbatim>\<open>AttributeError\<close> are
  caught and the candidate is admitted; any other exception of the ping goes to the caller.
\<close>

definition on_connect ::
  "Connection \<Rightarrow> 'x XrayService \<times> world \<Rightarrow> unit outcome \<times> 'x XrayService \<times> world" where
  "on_connect conn sw =
     (let s = fst sw; w = snd sw in
      case connection s of
        None \<Rightarrow> (Return (), admit conn s, w)
      | Some cur \<Rightarrow>
          (case ping_answer w (cid cur) of
             Return u \<Rightarrow>
               (case peer cur of
                  Some p \<Rightarrow> (Return (), s, w\<lparr>trace := trace w @ [ConnClose (cid conn)]\<rparr>)
                | None \<Rightarrow> (Return (), admit conn s, w))
           | Raise err \<Rightarrow>
               if err = EOFError \<or> err = TimeoutError \<or> err = AttributeError
               then (Return (), admit conn s, w)
               else (Raise err, s, w)))"

text \<open>
  \<^verbatim>\<open>on_disconnect\<close>. The log line reads \<^verbatim>\<open>self.connection.peer\<close>; then each core that exists is
  stopped by a plain call, so an exception of the first call leaves the method at once.
\<close>

definition on_disconnect ::
  "('x, 'xc) xray_api \<Rightarrow> Connection \<Rightarrow> 'x XrayService \<times> world
     \<Rightarrow> unit outcome \<times> 'x XrayService \<times> world" where
  "on_disconnect api conn sw =
     (let s = fst sw; w = snd sw in
      case connection s of
        None \<Rightarrow> (Return (), s, w)
      | Some cur \<Rightarrow>
          if cid conn \<noteq> cid cur then (Return (), s, w)
          else if peer cur = None then (Raise AttributeError, s, w)
          else
            (let r1 = (case core s of
                         None \<Rightarrow> (Return (), s, w)
                       | Some x \<Rightarrow>
                           (let r = XRayCore_stop api (x, w)
                            in (fst r, s\<lparr>core := Some (fst (snd r))\<rparr>, snd (snd r))))
             in case fst r1 of
                  Raise err \<Rightarrow> r1
                | Return u \<Rightarrow>
                    (let s1 = fst (snd r1); w1 = snd (snd r1);
                         r2 = (case singbox_core s1 of
                                 None \<Rightarrow> (s1, w1)
                               | Some c \<Rightarrow>
                                   (let cw = SingBoxCore_stop (c, w1)
                                    in (s1\<lparr>singbox_core := Some (fst cw)\<rparr>, snd cw)))
                     in (Return (),
                         (fst r2)\<lparr>core := None, singbox_core := None, connection := None\<rparr>,
                         snd r2))))"

subsection \<open>The Xray methods\<close>

text \<open>\<^verbatim>\<open>stop\<close>: a \<^verbatim>\<open>RuntimeError\<close> of the core's \<^verbatim>\<open>stop\<close> is swallowed, anything else propagates
  before the core is dropped.\<close>

definition stop ::
  "('x, 'xc) xray_api \<Rightarrow> 'x XrayService \<times> world \<Rightarrow> unit outcome \<times> 'x XrayService \<times> world" where
  "stop api sw =
     (let s = fst sw; w = snd sw in
      case core s of
        None \<Rightarrow> (Return (), s\<lparr>core := None\<rparr>, w)
      | Some x \<Rightarrow>
          (let r = XRayCore_stop api (x, w); x' = fst (snd r); w' = snd (snd r) in
           case fst r of
             Return u \<Rightarrow> (Return (), s\<lparr>core := None\<rparr>, w')
           | Raise (RuntimeError m) \<Rightarrow> (Return (), s\<lparr>core := None\<rparr>, w')
           | Raise err \<Rightarrow> (Raise err, s\<lparr>core := Some x'\<rparr>, w')))"

text \<open>
  \<^verbatim>\<open>start\<close>: an existing core is stopped and dropped first; only then, inside the \<^verbatim>\<open>try\<close>,
  is the config built (its second argument \<^verbatim>\<open>self.connection.peer\<close> is evaluated before
  the call), the new core made, the peer's hooks registered and the core started. The
  \<^verbatim>\<open>except\<close> clause logs and raises again.
\<close>

definition start ::
  "('x, 'xc) xray_api \<Rightarrow> string \<Rightarrow> 'x XrayService \<times> world
     \<Rightarrow> unit outcome \<times> 'x XrayService \<times> world" where
  "start api config sw =
     (let r0 = (if core (fst sw) \<noteq> None then stop api sw else (Return (), sw)) in
      case fst r0 of
        Raise err \<Rightarrow> r0
      | Return u \<Rightarrow>
          (let s = fst (snd r0); w = snd (snd r0) in
           case connection s of
             None \<Rightarrow> (Raise AttributeError, s, w)
           | Some conn \<Rightarrow>
               (case peer conn of
                  None \<Rightarrow> (Raise AttributeError, s, w)
                | Some ip \<Rightarrow>
                    (case XRayConfig_init api config ip of
                       Inl err \<Rightarrow> (Raise err, s, w)
                     | Inr cfg \<Rightarrow>
                         (let x0 = XRayCore_init api w;
                              x1 = (if ''on_start'' \<in> set (root_attrs conn)
                                    then XRayCore_on_start api Peer_on_start x0 else x0);
                              x2 = (if ''on_stop'' \<in> set (root_attrs conn)
                                    then XRayCore_on_stop api Peer_on_stop x1 else x1);
                              r = XRayCore_start api cfg (x2, w)
                          in (fst r, s\<lparr>core := Some (fst (snd r))\<rparr>, snd (snd r)))))))"

text \<open>\<^verbatim>\<open>restart\<close>: the config is built first; without a core, \<^verbatim>\<open>self.core.restart\<close> raises
  \<^verbatim>\<open>AttributeError\<close>.\<close>

definition restart ::
  "('x, 'xc) xray_api \<Rightarrow> string \<Rightarrow> 'x XrayService \<times> world
     \<Rightarrow> unit outcome \<times> 'x XrayService \<times> world" where
  "restart api config sw =
     (let s = fst sw; w = snd sw in
      case connection s of
        None \<Rightarrow> (Raise AttributeError, s, w)
      | Some conn \<Rightarrow>
          (case peer conn of
             None \<Rightarrow> (Raise AttributeError, s, w)
           | Some ip \<Rightarrow>
               (case XRayConfig_init api config ip of
                  Inl err \<Rightarrow> (Raise err, s, w)
                | Inr cfg \<Rightarrow>
                    (case core s of
                       None \<Rightarrow> (Raise AttributeError, s, w)
                     | Some x \<Rightarrow>
                         (let r = XRayCore_restart api cfg (x, w)
                          in (fst r, s\<lparr>core := Some (fst (snd r))\<rparr>, snd (snd r)))))))"

text \<open>\<^verbatim>\<open>fetch_logs\<close>: without a core the method falls off its end and returns \<^verbatim>\<open>None\<close>.\<close>

definition fetch_logs ::
  "('x, 'xc) xray_api \<Rightarrow> nat \<Rightarrow> 'x XrayService \<times> world
     \<Rightarrow> CoreLogsHandler option outcome \<times> 'x XrayService \<times> world" where
  "fetch_logs api cb sw =
     (let s = fst sw; w = snd sw in
      case core s of
        None \<Rightarrow> (Return None, s, w)
      | Some x \<Rightarrow>
          (let r = XRayCore_get_logs api x in
           (Return (Some \<lparr>handler_core = Xray, callback = cb, active = True,
                           subscription = fst r\<rparr>),
            s\<lparr>core := Some (snd r)\<rparr>, w)))"

subsection \<open>The Sing-box methods\<close>

definition singbox_stop ::
  "'x XrayService \<times> world \<Rightarrow> unit outcome \<times> 'x XrayService \<times> world" where
  "singbox_stop sw =
     (let s = fst sw; w = snd sw in
      case singbox_core s of
        None \<Rightarrow> (Return (), s\<lparr>singbox_core := None\<rparr>, w)
      | Some c \<Rightarrow> (Return (), s\<lparr>singbox_core := None\<rparr>, snd (SingBoxCore_stop (c, w))))"

text \<open>
  \<^verbatim>\<open>singbox_start\<close>, in the order of the source: the enablement check, the stop of an
  existing core, and inside the \<^verbatim>\<open>try\<close> the config, the new core (assigned to the service
  before it is started), the hooks, the start.
\<close>

definition singbox_start ::
  "settings \<Rightarrow> (string \<Rightarrow> json option) \<Rightarrow> config_arg \<Rightarrow> 'x XrayService \<times> world
     \<Rightarrow> unit outcome \<times> 'x XrayService \<times> world" where
  "singbox_start st loads config sw =
     (if \<not> SINGBOX_ENABLED st
      then (Raise (RuntimeError ''Sing-box is not enabled on this node''), sw)
      else
        (let r0 = (if singbox_core (fst sw) \<noteq> None then singbox_stop sw else (Return (), sw));
             s = fst (snd r0); w = snd (snd r0) in
         case connection s of
           None \<Rightarrow> (Raise AttributeError, s, w)
         | Some conn \<Rightarrow>
             (case peer conn of
                None \<Rightarrow> (Raise AttributeError, s, w)
              | Some ip \<Rightarrow>
                  (case SingBoxConfig_init st loads config ip of
                     Inl err \<Rightarrow> (Raise err, s, w)
                   | Inr cfg \<Rightarrow>
                       (let c0 = SingBoxCore_init (SINGBOX_EXECUTABLE_PATH st)
                                   (SINGBOX_WORKING_DIR st) w;
                            c1 = (if ''on_singbox_start'' \<in> set (root_attrs conn)
                                  then on_start Peer_on_singbox_start c0 else c0);
                            c2 = (if ''on_singbox_stop'' \<in> set (root_attrs conn)
                                  then on_stop Peer_on_singbox_stop c1 else c1);
                            r = SingBoxCore_start st cfg (c2, w)
                        in (fst r, s\<lparr>singbox_core := Some (fst (snd r))\<rparr>, snd (snd r)))))))"

text \<open>
  \<^verbatim>\<open>singbox_restart\<close>: the config is built before anything else is touched. With a core it
  is restarted; without one, \<^verbatim>\<open>singbox_start\<close> is called with the config object just built.
\<close>

definition singbox_restart ::
  "settings \<Rightarrow> (string \<Rightarrow> json option) \<Rightarrow> config_arg \<Rightarrow> 'x XrayService \<times> world
     \<Rightarrow> unit outcome \<times> 'x XrayService \<times> world" where
  "singbox_restart st loads config sw =
     (let s = fst sw; w = snd sw in
      if \<not> SINGBOX_ENABLED st
      then (Raise (RuntimeError ''Sing-box is not enabled on this node''), s, w)
      else
        (case connection s of
           None \<Rightarrow> (Raise AttributeError, s, w)
         | Some conn \<Rightarrow>
             (case peer conn of
                None \<Rightarrow> (Raise AttributeError, s, w)
              | Some ip \<Rightarrow>
                  (case SingBoxConfig_init st loads config ip of
                     Inl err \<Rightarrow> (Raise err, s, w)
                   | Inr cfg \<Rightarrow>
                       (case singbox_core s of
                          Some c \<Rightarrow>
                            (let r = SingBoxCore_restart st cfg (c, w)
                             in (fst r, s\<lparr>singbox_core := Some (fst (snd r))\<rparr>, snd (snd r)))
                        | None \<Rightarrow> singbox_start st loads (Built cfg) (s, w))))))"

text \<open>\<^verbatim>\<open>fetch_singbox_logs\<close>: the handler's thread subscribes to the core's logs.\<close>

definition fetch_singbox_logs ::
  "nat \<Rightarrow> 'x XrayService \<times> world \<Rightarrow> CoreLogsHandler option outcome \<times> 'x XrayService \<times> world" where
  "fetch_singbox_logs cb sw =
     (let s = fst sw; w = snd sw in
      case singbox_core s of
        None \<Rightarrow> (Return None, s, w)
      | Some c \<Rightarrow>
          (let r = get_logs_enter c in
           (Return (Some \<lparr>handler_core = SingBox, callback = cb, active = True,
                           subscription = fst r\<rparr>),
            s\<lparr>singbox_core := Some (snd r)\<rparr>, w)))"

text \<open>
  The start hook the service registers on a new core: the peer's method of that name, when
  its root service has it.
\<close>

definition peer_hooks :: "Connection \<Rightarrow> string \<Rightarrow> hook \<Rightarrow> hook list" where
  "peer_hooks conn name func = (if name \<in> set (root_attrs conn) then [func] else [])"

section \<open>Sample values\<close>

text \<open>
  A node with Sing-box enabled and the allow-list \<^verbatim>\<open>["a"]\<close>; a world in which process 0 runs
  and the executable can be launched; a core that supervises process 0 and has two lines
  in its ring; that core with its reader thread in \<^verbatim>\<open>readline()\<close>; a controller
  connection from 10.0.0.1 whose root service has both Sing-box hooks; a service holding
  that core and that connection; a \<^verbatim>\<open>json.loads\<close> that knows one document; and an Xray
  implementation whose config constructor rejects every text and whose \<^verbatim>\<open>stop\<close> raises.
\<close>

definition sample_settings :: settings where
  "sample_settings =
     \<lparr>DEBUG = False, SSL_CERT_FILE = ''/ssl/cert.pem'', SSL_KEY_FILE = ''/ssl/key.pem'',
      SINGBOX_INBOUNDS = Some [''a''], SINGBOX_ENABLED = True,
      SINGBOX_EXECUTABLE_PATH = ''/usr/local/bin/sing-box'',
      SINGBOX_WORKING_DIR = ''/var/lib/marzban-node''\<rparr>"

definition sample_world :: world where
  "sample_world =
     \<lparr>exited = (\<lambda>p. False), ignores_terminate = (\<lambda>p. False), launchable = True,
      next_pid = 1, reported_version = Some ''1.8.0'',
      ping_answer = (\<lambda>i. Return ()), trace = []\<rparr>"

definition sample_core :: SingBoxCore where
  "sample_core =
     \<lparr>executable_path = ''/usr/local/bin/sing-box'', working_dir = ''/var/lib/marzban-node'',
      version = Some ''1.8.0'', process = Some 0, restarting = False,
      logs_buffer = [ascii ''a'', ascii ''b''], temp_log_buffers = [],
      on_start_funcs = [Peer_on_singbox_start], on_stop_funcs = [Peer_on_singbox_stop]\<rparr>"

definition sample_threads :: log_threads where
  "sample_threads = \<lparr>shared = sample_core, reader = Waiting, unregistered = []\<rparr>"

definition sample_conn :: Connection where
  "sample_conn =
     \<lparr>cid = 1, peer = Some ''10.0.0.1'', peername = ''10.0.0.1'',
      root_attrs = [''on_singbox_start'', ''on_singbox_stop'']\<rparr>"

definition sample_service :: "unit XrayService" where
  "sample_service =
     \<lparr>core = None, singbox_core = Some sample_core, connection = Some sample_conn\<rparr>"

definition sample_loads :: "string \<Rightarrow> json option" where
  "sample_loads text =
     (if text = ''{\"log\": {\"level\": \"silent\"}, \"inbounds\": [{\"tag\": \"a\"}, {\"tag\": \"b\"}]}''
      then Some (JObj [(''log'', JObj [(''level'', JStr ''silent'')]),
                       (''inbounds'', JArr [JObj [(''tag'', JStr ''a'')],
                                            JObj [(''tag'', JStr ''b'')]])])
      else None)"


definition failing_xray :: "(unit, unit) xray_api" where
  "failing_xray =
     \<lparr>XRayConfig_init = (\<lambda>config ip. Inl JSONDecodeError),
      XRayCore_init = (\<lambda>w. ()),
      XRayCore_on_start = (\<lambda>func x. x),
      XRayCore_on_stop = (\<lambda>func x. x),
      XRayCore_start = (\<lambda>cfg xw. (Return (), xw)),
      XRayCore_stop = (\<lambda>xw. (Raise (RuntimeError ''Xray is not started''), xw)),
      XRayCore_restart = (\<lambda>cfg xw. (Return (), xw)),
      XRayCore_get_logs = (\<lambda>x. (0, x))\<rparr>"

section \<open>Properties of the config transform\<close>

lemma tag_allowed_tag_in: "tag_allowed allow kvs = tag_in allow (JObj kvs)"
  by (simp add: tag_in_def split: option.splits json.splits)

lemma filter_inbounds_dicts:
  "list_all is_dict xs \<Longrightarrow>
     filter_inbounds allow xs acc = Inr (acc @ filter (tag_in allow) xs)"
proof (induction xs arbitrary: acc)
  case Nil
  then show ?case by simp
next
  case (Cons x xs)
  then obtain kvs where x: "x = JObj kvs" by (cases x) auto
  from Cons show ?case
    unfolding x by (simp add: tag_allowed_tag_in del: tag_allowed.simps)
qed

lemma filter_inbounds_Inr:
  "filter_inbounds allow xs acc = Inr ys \<Longrightarrow>
     list_all is_dict xs \<and> ys = acc @ filter (tag_in allow) xs"
proof (induction allow xs acc rule: filter_inbounds.induct)
  case (1 allow filtered)
  then show ?case by simp
next
  case (2 allow kvs rest filtered)
  then show ?case
    by (auto simp: tag_allowed_tag_in simp del: tag_allowed.simps split: if_splits)
qed simp_all

lemma dict_get_set_same: "dict_get (dict_set k v d) k = Some v"
  by (induction d) auto

lemma dict_get_set_other:
  "py_key k' \<noteq> py_key k \<Longrightarrow> dict_get (dict_set k v d) k' = dict_get d k'"
  by (induction d) auto

lemma apply_filters_Some:
  "allow \<noteq> [] \<Longrightarrow>
   apply_filters (Some allow) d =
     (case py_iter (case dict_get d inbounds_key of None \<Rightarrow> JArr [] | Some v \<Rightarrow> v) of
        Inl err \<Rightarrow> Inl err
      | Inr inbounds \<Rightarrow>
          (case filter_inbounds allow inbounds [] of
             Inl err \<Rightarrow> Inl err
           | Inr filtered \<Rightarrow> Inr (dict_set inbounds_key (JArr filtered) d)))"
  by (simp add: apply_filters_def)

text \<open>
  Claim C5. For a document whose \<^verbatim>\<open>inbounds\<close> value is a list of dicts (or that has no
  such key), a configured, non-empty allow-list makes \<^verbatim>\<open>_apply_filters\<close> return normally,
  with \<^verbatim>\<open>inbounds\<close> equal to the input entries whose tag is on the allow-list, in their
  original order, and with every other key as it was. With an empty or absent allow-list
  the document is returned unchanged.
\<close>

theorem apply_filters_keeps_allowed:
  assumes inb: "dict_get d inbounds_key = Some (JArr xs) \<or>
                dict_get d inbounds_key = None \<and> xs = []"
    and dicts: "list_all is_dict xs"
  shows "(allow \<noteq> [] \<longrightarrow>
            apply_filters (Some allow) d
              = Inr (dict_set inbounds_key (JArr (filter (tag_in allow) xs)) d) \<and>
            dict_get (dict_set inbounds_key (JArr (filter (tag_in allow) xs)) d) inbounds_key
              = Some (JArr (filter (tag_in allow) xs)) \<and>
            (\<forall>k. py_key k \<noteq> py_key inbounds_key \<longrightarrow>
               dict_get (dict_set inbounds_key (JArr (filter (tag_in allow) xs)) d) k
                 = dict_get d k))
         \<and> apply_filters (Some []) d = Inr d
         \<and> apply_filters None d = Inr d"
proof -
  have it: "py_iter (case dict_get d inbounds_key of None \<Rightarrow> JArr [] | Some v \<Rightarrow> v) = Inr xs"
    using inb by auto
  have "apply_filters (Some allow) d =
          Inr (dict_set inbounds_key (JArr (filter (tag_in allow) xs)) d)"
    if "allow \<noteq> []"
    by (simp add: apply_filters_Some [OF that] it filter_inbounds_dicts [OF dicts])
  moreover have "apply_filters (Some []) d = Inr d" "apply_filters None d = Inr d"
    by (simp_all add: apply_filters_def)
  ultimately show ?thesis
    by (simp add: dict_get_set_same dict_get_set_other)
qed

theorem apply_filters_keeps_allowed_witness:
  "apply_filters (Some [''a'', ''c''])
     [(JStr ''log'', JObj [(''level'', JStr ''info'')]),
      (JStr ''inbounds'',
       JArr [JObj [(''tag'', JStr ''a''), (''type'', JStr ''tuic'')],
             JObj [(''tag'', JStr ''b'')],
             JObj [(''tag'', JStr ''c'')],
             JObj [(''tag'', JStr ''d'')]])]
   = Inr [(JStr ''log'', JObj [(''level'', JStr ''info'')]),
          (JStr ''inbounds'',
           JArr [JObj [(''tag'', JStr ''a''), (''type'', JStr ''tuic'')],
                 JObj [(''tag'', JStr ''c'')]])]"
  using apply_filters_keeps_allowed
    [of "[(JStr ''log'', JObj [(''level'', JStr ''info'')]),
          (JStr ''inbounds'',
           JArr [JObj [(''tag'', JStr ''a''), (''type'', JStr ''tuic'')],
                 JObj [(''tag'', JStr ''b'')],
                 JObj [(''tag'', JStr ''c'')],
                 JObj [(''tag'', JStr ''d'')]])]"
        "[JObj [(''tag'', JStr ''a''), (''type'', JStr ''tuic'')],
          JObj [(''tag'', JStr ''b'')],
          JObj [(''tag'', JStr ''c'')],
          JObj [(''tag'', JStr ''d'')]]"
        "[''a'', ''c'']"]
  by (simp add: inbounds_key_def tag_in_def)

text \<open>
  Claim C9. With a non-empty allow-list, every document \<^verbatim>\<open>_apply_filters\<close> returns has the
  key \<^verbatim>\<open>inbounds\<close>, bound to a list each of whose entries bears a string tag of the
  allow-list (so an entry without a tag is gone); and a document without the key comes
  back with \<^verbatim>\<open>inbounds\<close> bound to the empty list.
\<close>

theorem apply_filters_writes_inbounds:
  assumes ne: "allow \<noteq> []"
  shows "(apply_filters (Some allow) d = Inr d' \<longrightarrow>
            (\<exists>ys. dict_get d' inbounds_key = Some (JArr ys) \<and>
                  (\<forall>e\<in>set ys. \<exists>t. tag_of e = Some t \<and> t \<in> set allow)))
         \<and> (dict_get d inbounds_key = None \<longrightarrow>
              apply_filters (Some allow) d = Inr (dict_set inbounds_key (JArr []) d) \<and>
              dict_get (dict_set inbounds_key (JArr []) d) inbounds_key = Some (JArr []))"
proof (intro conjI impI)
  assume "dict_get d inbounds_key = None"
  then show "apply_filters (Some allow) d = Inr (dict_set inbounds_key (JArr []) d)"
    by (simp add: apply_filters_Some [OF ne])
next
  show "dict_get (dict_set inbounds_key (JArr []) d) inbounds_key = Some (JArr [])"
    by (rule dict_get_set_same)
next
  assume r: "apply_filters (Some allow) d = Inr d'"
  then obtain inbounds filtered where
    f: "filter_inbounds allow inbounds [] = Inr filtered"
    and d': "d' = dict_set inbounds_key (JArr filtered) d"
    by (auto simp: apply_filters_Some [OF ne] split: sum.splits)
  from filter_inbounds_Inr [OF f] have "filtered = filter (tag_in allow) inbounds" by simp
  then have "\<forall>e\<in>set filtered. \<exists>t. tag_of e = Some t \<and> t \<in> set allow"
    by (auto simp: tag_in_def split: option.splits)
  with d' show "\<exists>ys. dict_get d' inbounds_key = Some (JArr ys) \<and>
                 (\<forall>e\<in>set ys. \<exists>t. tag_of e = Some t \<and> t \<in> set allow)"
    by (simp add: dict_get_set_same)
qed

theorem apply_filters_writes_inbounds_witness:
  "apply_filters (Some [''a''])
     [(JStr ''log'', JObj [(''level'', JStr ''info'')])]
   = Inr [(JStr ''log'', JObj [(''level'', JStr ''info'')]), (JStr ''inbounds'', JArr [])]
   \<and> apply_filters (Some [''a''])
     [(JStr ''inbounds'', JArr [JObj [(''type'', JStr ''tuic'')], JObj [(''tag'', JStr ''a'')]])]
   = Inr [(JStr ''inbounds'', JArr [JObj [(''tag'', JStr ''a'')]])]"
  using apply_filters_writes_inbounds
    [of "[''a'']" "[(JStr ''log'', JObj [(''level'', JStr ''info'')])]"]
  by (simp add: inbounds_key_def apply_filters_def)

section \<open>Properties of the log buffers\<close>

lemma deque_append_drop:
  "0 < n \<Longrightarrow> length xs \<le> n \<Longrightarrow>
     deque_append n xs x = drop (Suc (length xs) - n) (xs @ [x])"
  by (cases xs) (auto simp: deque_append_def)

lemma length_deque_append:
  "length xs \<le> n \<Longrightarrow> length (deque_append n xs x) \<le> n"
  by (auto simp: deque_append_def)

lemma foldl_deque_append:
  "0 < n \<Longrightarrow> length xs \<le> n \<Longrightarrow>
     foldl (deque_append n) xs ys = drop (length xs + length ys - n) (xs @ ys)"
proof (induction ys arbitrary: xs)
  case Nil
  then show ?case by simp
next
  case (Cons y ys)
  show ?case
  proof (cases "length xs < n")
    case True
    then have step: "deque_append n xs y = xs @ [y]"
      using Cons.prems(1) by (simp add: deque_append_def)
    from True have "length (xs @ [y]) \<le> n" by simp
    from Cons.IH [OF Cons.prems(1) this] show ?thesis
      by (simp add: step)
  next
    case False
    with Cons.prems have full: "length xs = n" by simp
    with Cons.prems(1) obtain a as where xs: "xs = a # as" by (cases xs) auto
    from full xs have n: "n = Suc (length as)" by simp
    have step: "deque_append n (a # as) y = as @ [y]"
      by (simp add: deque_append_def n)
    have "length (as @ [y]) \<le> n" by (simp add: n)
    from Cons.IH [OF Cons.prems(1) this] show ?thesis
      unfolding xs by (simp add: step) (simp add: n)
  qed
qed

lemma deque_init_small: "length xs \<le> 100 \<Longrightarrow> deque_init 100 xs = xs"
  by (simp add: deque_init_def foldl_deque_append)

lemma process_capture_line [simp]: "process (capture_line out c) = process c"
  by (simp add: capture_line_def Let_def)

lemma logs_buffer_capture_line:
  "logs_buffer (capture_line out c) = deque_append 100 (logs_buffer c) (strip out)"
  by (simp add: capture_line_def Let_def)

lemma capture_loop_lines:
  "process c \<noteq> None \<Longrightarrow> list_all (\<lambda>r. fst r \<noteq> []) reads \<Longrightarrow>
     logs_buffer (capture_loop reads c)
       = foldl (deque_append 100) (logs_buffer c) (map (\<lambda>r. strip (fst r)) reads)"
proof (induction reads arbitrary: c)
  case Nil
  then show ?case by simp
next
  case (Cons r reads)
  obtain out gone where r: "r = (out, gone)" by (cases r)
  from Cons.prems have out: "out \<noteq> []" and rest: "list_all (\<lambda>r. fst r \<noteq> []) reads"
    by (simp_all add: r)
  from Cons.prems(1) obtain p where p: "process c = Some p" by auto
  have running: "process (capture_line out c) \<noteq> None"
    by (simp add: p)
  have "capture_loop (r # reads) c = capture_loop reads (capture_line out c)"
    using out by (simp add: r p)
  then show ?case
    by (simp add: Cons.IH [OF running rest] logs_buffer_capture_line r)
qed

text \<open>
  Claim C4. The reader has a process and reads \<open>N > 100\<close> lines into a ring of at most
  100 lines: afterwards the ring holds exactly the last 100 of the lines appended, oldest
  first. Each append to a full ring drops its oldest line and puts the new one last.
\<close>

theorem ring_keeps_last_100:
  assumes running: "process c \<noteq> None"
    and lines: "list_all (\<lambda>r. fst r \<noteq> []) reads"
    and ring: "length (logs_buffer c) \<le> 100"
    and many: "100 < length reads"
  shows "logs_buffer (capture_loop reads c)
           = drop (length reads - 100) (map (\<lambda>r. strip (fst r)) reads)
         \<and> length (logs_buffer (capture_loop reads c)) = 100
         \<and> (length (logs_buffer c) = 100 \<longrightarrow>
              logs_buffer (capture_line output c) = tl (logs_buffer c) @ [strip output])"
proof -
  have "logs_buffer (capture_loop reads c)
          = drop (length (logs_buffer c) + length reads - 100)
              (logs_buffer c @ map (\<lambda>r. strip (fst r)) reads)"
    by (simp add: capture_loop_lines [OF running lines] foldl_deque_append ring)
  also have "\<dots> = drop (length reads - 100) (map (\<lambda>r. strip (fst r)) reads)"
    using many by simp
  finally have main: "logs_buffer (capture_loop reads c)
           = drop (length reads - 100) (map (\<lambda>r. strip (fst r)) reads)" .
  moreover from main many have "length (logs_buffer (capture_loop reads c)) = 100"
    by simp
  moreover have "length (logs_buffer c) = 100 \<longrightarrow>
      logs_buffer (capture_line output c) = tl (logs_buffer c) @ [strip output]"
    by (simp add: logs_buffer_capture_line deque_append_def)
  ultimately show ?thesis by simp
qed

lemma strip_x: "strip (ascii [CHR ''x'', CHR 0x0A]) = ascii ''x''"
  by (simp add: strip_def whitespace_def ascii_def)

theorem ring_keeps_last_100_witness:
  "logs_buffer
     (capture_loop
        ((ascii (''first'' @ [CHR 0x0A]), False)
         # replicate 100 (ascii [CHR ''x'', CHR 0x0A], False))
        \<lparr>executable_path = ''sing-box'', working_dir = ''/'', version = None,
         process = Some 0, restarting = False, logs_buffer = [], temp_log_buffers = [],
         on_start_funcs = [], on_stop_funcs = []\<rparr>)
   = replicate 100 (ascii ''x'')"
  using ring_keeps_last_100
    [of "\<lparr>executable_path = ''sing-box'', working_dir = ''/'', version = None,
         process = Some 0, restarting = False, logs_buffer = [], temp_log_buffers = [],
         on_start_funcs = [], on_stop_funcs = []\<rparr>"
        "(ascii (''first'' @ [CHR 0x0A]), False)
         # replicate 100 (ascii [CHR ''x'', CHR 0x0A], False)"]
  by (simp add: strip_x list_all_iff) (simp add: ascii_def)

lemma fresh_id_bound: "k \<in> set ks \<Longrightarrow> k < fresh_id ks"
  by (induction ks) (auto simp: fresh_id_def)

lemma fresh_id_notin: "fresh_id ks \<notin> set ks"
  using fresh_id_bound [of "fresh_id ks" ks] by auto

lemma map_of_keys: "map_of al k = Some v \<Longrightarrow> k \<in> set (map fst al)"
  by (metis map_of_SomeD list.set_map image_eqI fst_conv)

lemma count_key:
  "map_of al i = Some b \<Longrightarrow> distinct (map fst al) \<Longrightarrow> count_list (map fst al) i = 1"
proof (induction al)
  case Nil
  then show ?case by simp
next
  case (Cons kb al)
  show ?case
  proof (cases "fst kb = i")
    case True
    with Cons.prems(2) have "i \<notin> set (map fst al)" by auto
    then have "count_list (map fst al) i = 0" by (simp add: count_list_0_iff)
    with True show ?thesis by simp
  next
    case False
    with Cons show ?thesis by (cases kb) auto
  qed
qed

lemma map_of_update_at:
  "map_of (map (\<lambda>kb. if fst kb = k then (k, f (snd kb)) else kb) al) i =
     (if k = i then map_option f (map_of al i) else map_of al i)"
  by (induction al) auto

lemma map_of_buf_append:
  "map_of (temp_log_buffers (buf_append k line c)) i =
     (if k = i then map_option (\<lambda>b. deque_append 100 b line) (map_of (temp_log_buffers c) i)
      else map_of (temp_log_buffers c) i)"
  unfolding buf_append_def
  using map_of_update_at [of k "\<lambda>b. deque_append 100 b line" "temp_log_buffers c" i]
  by simp

lemma keys_buf_append:
  "map fst (temp_log_buffers (buf_append k line c)) = map fst (temp_log_buffers c)"
  by (simp add: buf_append_def)

text \<open>What one step does to the deque of a registered subscriber, and to what it is owed.\<close>

lemma step_registered:
  assumes reg: "map_of (temp_log_buffers (shared t)) i = Some b"
    and dict: "distinct (map fst (temp_log_buffers (shared t)))"
    and mine: "i \<notin> set (map fst (unregistered t))"
    and ok: "keeps_up1 i e t"
  shows "\<exists>b'. map_of (temp_log_buffers (shared (log_step e t))) i = Some b'
           \<and> distinct (map fst (temp_log_buffers (shared (log_step e t))))
           \<and> i \<notin> set (map fst (unregistered (log_step e t)))
           \<and> taken i e t @ b' @ in_flight i (log_step e t)
               = b @ in_flight i t @ appended1 e t"
proof (cases e)
  case (ReadLine out)
  show ?thesis
  proof (cases "reader t")
    case Waiting
    with reg dict mine show ?thesis
      by (simp add: ReadLine ring_append_def in_flight_def)
  next
    case (Appended l)
    with reg dict mine show ?thesis
      by (simp add: ReadLine in_flight_def)
  next
    case (Delivering l ks)
    with reg dict mine show ?thesis
      by (simp add: ReadLine in_flight_def)
  qed
next
  case TakeTargets
  show ?thesis
  proof (cases "reader t")
    case Waiting
    with reg dict mine show ?thesis
      by (simp add: TakeTargets in_flight_def)
  next
    case (Appended l)
    with reg dict mine count_key [OF reg dict] show ?thesis
      by (simp add: TakeTargets in_flight_def)
  next
    case (Delivering l ks)
    with reg dict mine show ?thesis
      by (simp add: TakeTargets in_flight_def)
  qed
next
  case Deliver
  show ?thesis
  proof (cases "reader t")
    case Waiting
    with reg dict mine show ?thesis
      by (simp add: Deliver in_flight_def)
  next
    case (Appended l)
    with reg dict mine show ?thesis
      by (simp add: Deliver in_flight_def)
  next
    case (Delivering l ks)
    show ?thesis
    proof (cases ks)
      case Nil
      with Delivering reg dict mine show ?thesis
        by (simp add: Deliver in_flight_def)
    next
      case (Cons k rest)
      show ?thesis
      proof (cases "k = i")
        case True
        with ok Delivering Cons reg have room: "length b < 100"
          by (simp add: Deliver pending_def)
        then have "deque_append 100 b l = b @ [l]"
          by (simp add: deque_append_def)
        with True Delivering Cons reg dict mine show ?thesis
          by (simp add: Deliver in_flight_def map_of_buf_append keys_buf_append
                replicate_append_same)
      next
        case False
        with Delivering Cons reg dict mine show ?thesis
          by (simp add: Deliver in_flight_def map_of_buf_append keys_buf_append)
      qed
    qed
  qed
next
  case Copy
  have "new_id t \<noteq> i"
  proof -
    from map_of_keys [OF reg]
    have "i \<in> set (map fst (temp_log_buffers (shared t)) @ map fst (unregistered t)
               @ reader_targets (reader t))" by simp
    from fresh_id_bound [OF this] show ?thesis by (simp add: new_id_def)
  qed
  with reg dict mine show ?thesis
    by (simp add: Copy in_flight_def)
next
  case (Register k)
  show ?thesis
  proof (cases "map_of (unregistered t) k")
    case None
    with reg dict mine show ?thesis
      by (simp add: Register in_flight_def)
  next
    case (Some buf)
    from map_of_keys [OF Some] mine have "k \<noteq> i" by auto
    moreover have "i \<notin> set (map fst (AList.delete k (unregistered t)))"
      using mine by (simp add: delete_keys)
    ultimately show ?thesis
      using Some reg dict
      by (simp add: Register in_flight_def get_logs_register_def update_conv'
            distinct_update)
  qed
next
  case (Consume k)
  show ?thesis
  proof (cases "k = i")
    case True
    with reg dict mine show ?thesis
      by (cases b)
         (auto simp: Consume in_flight_def popleft_def update_conv' distinct_update)
  next
    case False
    with reg dict mine show ?thesis
      by (simp add: Consume in_flight_def popleft_def update_conv' distinct_update
            del: map_of_eq_Some_iff split: option.splits list.splits)
  qed
next
  case (Unsubscribe k)
  with ok have "k \<noteq> i" by simp
  with reg dict mine show ?thesis
    by (simp add: Unsubscribe in_flight_def get_logs_exit_def delete_conv' distinct_delete)
qed


text \<open>Over a run: what the subscriber has taken, holds and is owed.\<close>

lemma run_registered:
  "map_of (temp_log_buffers (shared t)) i = Some b \<Longrightarrow>
   distinct (map fst (temp_log_buffers (shared t))) \<Longrightarrow>
   i \<notin> set (map fst (unregistered t)) \<Longrightarrow>
   keeps_up i es t \<Longrightarrow>
     consumed i es t @ pending i (shared (log_run es t)) @ in_flight i (log_run es t)
       = b @ in_flight i t @ appended es t"
proof (induction es arbitrary: t b)
  case Nil
  then show ?case by (simp add: pending_def)
next
  case (Cons e es)
  from Cons.prems(4) have ok: "keeps_up1 i e t" and rest: "keeps_up i es (log_step e t)"
    by simp_all
  from step_registered [OF Cons.prems(1-3) ok] obtain b' where
    reg': "map_of (temp_log_buffers (shared (log_step e t))) i = Some b'"
    and dict': "distinct (map fst (temp_log_buffers (shared (log_step e t))))"
    and mine': "i \<notin> set (map fst (unregistered (log_step e t)))"
    and eq: "taken i e t @ b' @ in_flight i (log_step e t) = b @ in_flight i t @ appended1 e t"
    by blast
  have "consumed i (e # es) t @ pending i (shared (log_run (e # es) t))
          @ in_flight i (log_run (e # es) t)
        = taken i e t @ (b' @ in_flight i (log_step e t) @ appended es (log_step e t))"
    using Cons.IH [OF reg' dict' mine' rest] by simp
  also have "\<dots> = (taken i e t @ b' @ in_flight i (log_step e t)) @ appended es (log_step e t)"
    by simp
  also have "\<dots> = b @ in_flight i t @ appended (e # es) t"
    by (simp only: eq) simp
  finally show ?case .
qed

text \<open>
  A thread that copies and registers with no step in between, while the reader is not
  between its append and its reading of the registry, ends up registered with the ring as
  its deque and is owed nothing.
\<close>

lemma entered:
  assumes ring: "length (logs_buffer (shared t0)) \<le> 100"
    and dict: "distinct (map fst (temp_log_buffers (shared t0)))"
    and calm: "\<not> before_fan_out t0"
    and enter: "i = new_id t0" "t = log_step (Register i) (log_step Copy t0)"
  shows "map_of (temp_log_buffers (shared t)) i = Some (logs_buffer (shared t0))"
    and "distinct (map fst (temp_log_buffers (shared t)))"
    and "i \<notin> set (map fst (unregistered t))"
    and "in_flight i t = []"
proof -
  have new: "i \<notin> set (map fst (temp_log_buffers (shared t0)) @ map fst (unregistered t0)
               @ reader_targets (reader t0))"
    unfolding enter(1) new_id_def by (rule fresh_id_notin)
  then have "i \<notin> fst ` set (unregistered t0)" by simp
  then have "map_of (unregistered t0) i = None"
    by (simp add: map_of_eq_None_iff)
  then have found: "map_of (unregistered t0 @ [(new_id t0, get_logs_copy (shared t0))]) i
      = Some (logs_buffer (shared t0))"
    by (simp add: enter(1) [symmetric] get_logs_copy_def deque_init_small [OF ring]
          map_add_def)
  then have t: "t = t0\<lparr>shared := get_logs_register i (logs_buffer (shared t0)) (shared t0),
      unregistered := AList.delete i (unregistered t0 @ [(new_id t0, get_logs_copy (shared t0))])\<rparr>"
    by (simp add: enter(2))
  show "map_of (temp_log_buffers (shared t)) i = Some (logs_buffer (shared t0))"
    by (simp add: t get_logs_register_def update_conv')
  show "distinct (map fst (temp_log_buffers (shared t)))"
    using dict by (simp add: t get_logs_register_def distinct_update)
  show "i \<notin> set (map fst (unregistered t))"
    by (simp add: t delete_keys)
  show "in_flight i t = []"
  proof (cases "reader t0")
    case Waiting
    then show ?thesis by (simp add: t in_flight_def)
  next
    case (Appended l)
    with calm show ?thesis by (simp add: before_fan_out_def)
  next
    case (Delivering l ks)
    with new have "i \<notin> set ks" by simp
    then have "count_list ks i = 0" by (simp add: count_list_0_iff)
    with Delivering show ?thesis by (simp add: t in_flight_def)
  qed
qed

text \<open>
  Claim C3, as amended. The registry is a dict and the ring holds at most 100 lines. A
  thread enters \<^verbatim>\<open>get_logs\<close>: it copies the ring and registers the copy with no step of
  another thread in between, at a moment when the reader is not between appending a line
  to the ring and reading the registry for it. From then on the threads run in any
  interleaving of their single steps, the other subscribers taking lines, entering and
  leaving as they like, as long as this subscriber stays registered and its deque holds
  fewer than 100 lines whenever the reader appends to it. Then what the subscriber has
  taken, followed by what waits in its deque and by the line the reader still has in
  hand for it, is the snapshot followed by every line appended to the ring since, in
  order, each exactly once; and whenever the reader is back in \<^verbatim>\<open>readline()\<close>, the
  subscriber's view is exactly the snapshot followed by those lines.
\<close>

theorem subscriber_view_while_keeping_up:
  assumes ring: "length (logs_buffer (shared t0)) \<le> 100"
    and dict: "distinct (map fst (temp_log_buffers (shared t0)))"
    and calm: "\<not> before_fan_out t0"
    and enter: "i = new_id t0" "t = log_step (Register i) (log_step Copy t0)"
    and keeps: "keeps_up i es t"
  shows "subscriber_view i es t @ in_flight i (log_run es t)
           = logs_buffer (shared t0) @ appended es t
    \<and> (reader (log_run es t) = Waiting \<longrightarrow>
          subscriber_view i es t = logs_buffer (shared t0) @ appended es t)"
proof -
  note e = entered [OF ring dict calm enter]
  have main: "subscriber_view i es t @ in_flight i (log_run es t)
           = logs_buffer (shared t0) @ appended es t"
    using run_registered [OF e(1) e(2) e(3) keeps]
    by (simp add: subscriber_view_def e(4))
  moreover have "in_flight i (log_run es t) = []" if "reader (log_run es t) = Waiting"
    using that by (simp add: in_flight_def)
  ultimately show ?thesis by auto
qed

theorem subscriber_view_while_keeping_up_witness:
  "subscriber_view 1
     [ReadLine (ascii (''c'' @ [CHR 0x0A])), Copy, TakeTargets, Register 2, Deliver,
      Consume 1, Deliver, ReadLine (ascii (''d'' @ [CHR 0x0A])), Consume 2, TakeTargets,
      Deliver, Unsubscribe 2, Deliver, Deliver, Consume 1]
     (log_step (Register 1) (log_step Copy sample_threads))
   = [ascii ''a'', ascii ''b'', ascii ''c'', ascii ''d'']
   \<and> consumed 1
     [ReadLine (ascii (''c'' @ [CHR 0x0A])), Copy, TakeTargets, Register 2, Deliver,
      Consume 1, Deliver, ReadLine (ascii (''d'' @ [CHR 0x0A])), Consume 2, TakeTargets,
      Deliver, Unsubscribe 2, Deliver, Deliver, Consume 1]
     (log_step (Register 1) (log_step Copy sample_threads))
   = [ascii ''a'', ascii ''b'']"
  using subscriber_view_while_keeping_up
    [of sample_threads 1 "log_step (Register 1) (log_step Copy sample_threads)"
        "[ReadLine (ascii (''c'' @ [CHR 0x0A])), Copy, TakeTargets, Register 2, Deliver,
      Consume 1, Deliver, ReadLine (ascii (''d'' @ [CHR 0x0A])), Consume 2, TakeTargets,
      Deliver, Unsubscribe 2, Deliver, Deliver, Consume 1]"]
  by (simp add: sample_threads_def sample_core_def new_id_def fresh_id_def
        before_fan_out_def get_logs_copy_def get_logs_register_def deque_init_def
        deque_append_def ring_append_def buf_append_def popleft_def get_logs_exit_def
        pending_def strip_def whitespace_def ascii_def Let_def)

text \<open>
  Claim C3 as stated fails when lines accumulate: the subscriber's deque has
  \<^verbatim>\<open>maxlen=100\<close> too. A subscriber that enters on a full ring and takes nothing holds 100
  lines; the next line the reader appends pushes the oldest of them out, and the
  subscriber's view is one line short of the snapshot followed by the new line.
\<close>

theorem subscriber_view_overflow_counterexample:
  "subscriber_view 1 [ReadLine (ascii ''y''), TakeTargets, Deliver, Deliver]
     (log_step (Register 1) (log_step Copy
        (sample_threads\<lparr>shared := sample_core\<lparr>logs_buffer := replicate 100 (ascii ''x'')\<rparr>\<rparr>)))
   = replicate 99 (ascii ''x'') @ [ascii ''y'']
   \<and> logs_buffer (shared
        (sample_threads\<lparr>shared := sample_core\<lparr>logs_buffer := replicate 100 (ascii ''x'')\<rparr>\<rparr>))
       @ appended [ReadLine (ascii ''y''), TakeTargets, Deliver, Deliver]
          (log_step (Register 1) (log_step Copy
            (sample_threads\<lparr>shared := sample_core\<lparr>logs_buffer := replicate 100 (ascii ''x'')\<rparr>\<rparr>)))
   = replicate 100 (ascii ''x'') @ [ascii ''y'']
   \<and> reader (log_run [ReadLine (ascii ''y''), TakeTargets, Deliver, Deliver]
        (log_step (Register 1) (log_step Copy
          (sample_threads\<lparr>shared := sample_core\<lparr>logs_buffer := replicate 100 (ascii ''x'')\<rparr>\<rparr>))))
     = Waiting"
  by (simp add: sample_threads_def sample_core_def new_id_def fresh_id_def
        get_logs_copy_def get_logs_register_def deque_init_small
        deque_append_def ring_append_def buf_append_def subscriber_view_def
        pending_def strip_def whitespace_def ascii_def)

text \<open>
  The two steps of entering are not protected against the reader. A line appended and
  fanned out between a thread's copy and its registration never reaches that thread; a
  line appended before the copy and fanned out after the registration reaches it twice.
\<close>

lemma entry_race_loses_line:
  "pending 1 (shared (log_run
      [Copy, ReadLine (ascii ''c''), TakeTargets, Deliver, Register 1] sample_threads))
     = [ascii ''a'', ascii ''b'']
   \<and> logs_buffer (shared (log_run
      [Copy, ReadLine (ascii ''c''), TakeTargets, Deliver, Register 1] sample_threads))
     = [ascii ''a'', ascii ''b'', ascii ''c'']
   \<and> reader (log_run
      [Copy, ReadLine (ascii ''c''), TakeTargets, Deliver, Register 1] sample_threads)
     = Waiting"
  by (simp add: sample_threads_def sample_core_def new_id_def fresh_id_def
        get_logs_copy_def get_logs_register_def deque_init_def
        deque_append_def ring_append_def buf_append_def
        pending_def strip_def whitespace_def ascii_def)

lemma entry_race_repeats_line:
  "pending 1 (shared (log_run
      [ReadLine (ascii ''c''), Copy, Register 1, TakeTargets, Deliver, Deliver]
      sample_threads))
     = [ascii ''a'', ascii ''b'', ascii ''c'', ascii ''c'']
   \<and> logs_buffer (shared (log_run
      [ReadLine (ascii ''c''), Copy, Register 1, TakeTargets, Deliver, Deliver]
      sample_threads))
     = [ascii ''a'', ascii ''b'', ascii ''c'']"
  by (simp add: sample_threads_def sample_core_def new_id_def fresh_id_def
        get_logs_copy_def get_logs_register_def deque_init_def
        deque_append_def ring_append_def buf_append_def
        pending_def strip_def whitespace_def ascii_def)

text \<open>
  Run without interruption, the steps make up the bodies used elsewhere: copy and
  register are entering \<^verbatim>\<open>get_logs\<close>, and one round of the reader is \<open>capture_line\<close>.
\<close>

lemma enter_is_copy_then_register:
  assumes "unregistered t = []" "reader_targets (reader t) = []"
    and "length (logs_buffer (shared t)) \<le> 100"
  shows "new_id t = fst (get_logs_enter (shared t))"
    and "shared (log_step (Register (new_id t)) (log_step Copy t))
           = snd (get_logs_enter (shared t))"
  using assms
  by (simp_all add: new_id_def get_logs_enter_def get_logs_copy_def get_logs_register_def
        Let_def)

lemma append_to_next:
  "k \<notin> set ks \<Longrightarrow>
     map (\<lambda>kb. if fst kb \<in> set ks then (fst kb, f (snd kb)) else kb)
       (map (\<lambda>kb. if fst kb = k then (k, f (snd kb)) else kb) al)
     = map (\<lambda>kb. if fst kb \<in> set (k # ks) then (fst kb, f (snd kb)) else kb) al"
  by (induction al) auto

lemma append_to_all:
  "map (\<lambda>kb. if fst kb \<in> set (map fst al) then (fst kb, f (snd kb)) else kb) al
     = map (\<lambda>kb. (fst kb, f (snd kb))) al"
  by (induction al) auto

lemma deliver_all:
  "reader t = Delivering line ks \<Longrightarrow> distinct ks \<Longrightarrow>
     shared (log_run (replicate (length ks) Deliver) t)
       = (shared t)\<lparr>temp_log_buffers :=
            map (\<lambda>kb. if fst kb \<in> set ks
                       then (fst kb, deque_append 100 (snd kb) line) else kb)
              (temp_log_buffers (shared t))\<rparr>
     \<and> reader (log_run (replicate (length ks) Deliver) t) = Delivering line []"
proof (induction ks arbitrary: t)
  case Nil
  then show ?case by simp
next
  case (Cons k ks)
  define t' where "t' = t\<lparr>shared := buf_append k line (shared t), reader := Delivering line ks\<rparr>"
  have step: "log_step Deliver t = t'"
    using Cons.prems(1) by (simp add: t'_def)
  have r: "reader t' = Delivering line ks" by (simp add: t'_def)
  from Cons.prems(2) have d: "distinct ks" and k: "k \<notin> set ks" by simp_all
  have run: "log_run (replicate (length (k # ks)) Deliver) t
               = log_run (replicate (length ks) Deliver) t'"
    by (simp add: step del: log_step.simps)
  have bufs: "temp_log_buffers (shared t')
      = map (\<lambda>kb. if fst kb = k then (k, deque_append 100 (snd kb) line) else kb)
          (temp_log_buffers (shared t))"
    by (simp add: t'_def buf_append_def)
  have "shared t'\<lparr>temp_log_buffers :=
            map (\<lambda>kb. if fst kb \<in> set ks
                       then (fst kb, deque_append 100 (snd kb) line) else kb)
              (temp_log_buffers (shared t'))\<rparr>
        = (shared t)\<lparr>temp_log_buffers :=
            map (\<lambda>kb. if fst kb \<in> set (k # ks)
                       then (fst kb, deque_append 100 (snd kb) line) else kb)
              (temp_log_buffers (shared t))\<rparr>"
    unfolding bufs
      append_to_next [OF k, of "\<lambda>b. deque_append 100 b line" "temp_log_buffers (shared t)"]
    by (simp add: t'_def buf_append_def)
  with Cons.IH [OF r d] show ?case
    unfolding run by simp
qed

lemma reader_round_is_capture_line:
  assumes wait: "reader t = Waiting" and nonempty: "output \<noteq> []"
    and dict: "distinct (map fst (temp_log_buffers (shared t)))"
  shows "shared (log_run (ReadLine output # TakeTargets
                  # replicate (length (temp_log_buffers (shared t))) Deliver) t)
           = capture_line output (shared t)"
proof -
  let ?t = "log_step TakeTargets (log_step (ReadLine output) t)"
  have r: "reader ?t = Delivering (strip output) (map fst (temp_log_buffers (shared t)))"
    using wait nonempty by (simp add: ring_append_def)
  have s: "shared ?t = ring_append (strip output) (shared t)"
    using wait nonempty by simp
  have ring: "temp_log_buffers (shared ?t) = temp_log_buffers (shared t)"
    unfolding s by (simp add: ring_append_def)
  from deliver_all [OF r dict]
  have "shared (log_run (replicate (length (temp_log_buffers (shared t))) Deliver) ?t)
          = (shared ?t)\<lparr>temp_log_buffers :=
               map (\<lambda>kb. (fst kb, deque_append 100 (snd kb) (strip output)))
                 (temp_log_buffers (shared t))\<rparr>"
    unfolding ring
    using append_to_all [of "temp_log_buffers (shared t)"
            "\<lambda>b. deque_append 100 b (strip output)"]
    by simp
  then
  show ?thesis
    unfolding log_run.simps s by (simp add: ring_append_def capture_line_def Let_def)
qed

section \<open>Properties of the supervisor\<close>








lemma stop_running:
  "process c = Some p \<Longrightarrow> \<not> exited w p \<Longrightarrow>
     SingBoxCore_stop (c, w) =
       (c\<lparr>process := None\<rparr>,
        w\<lparr>exited := (exited w)(p := True),
          trace := trace w @ [Terminate p]
            @ (if ignores_terminate w p then [Kill p] else [])
            @ map HookThread (on_stop_funcs c)\<rparr>)"
  by (simp add: SingBoxCore_stop_def Let_def)

lemma start_fresh:
  "process c = None \<Longrightarrow> silent_to_warn (items cfg) = Inr d \<Longrightarrow> launchable w \<Longrightarrow>
     SingBoxCore_start st cfg (c, w) =
       (Return (),
        c\<lparr>process := Some (next_pid w)\<rparr>,
        w\<lparr>exited := (exited w)(next_pid w := False),
          next_pid := Suc (next_pid w),
          trace := trace w
            @ [Popen (next_pid w) (executable_path c) (working_dir c),
               StdinWrite (next_pid w) d, StdinClose (next_pid w),
               ReaderThread (next_pid w) (DEBUG st)]
            @ map HookThread (on_start_funcs c)\<rparr>)"
  by (simp add: SingBoxCore_start_def Let_def started_def)

lemma start_started:
  "process c = Some p \<Longrightarrow> \<not> exited w p \<Longrightarrow>
     SingBoxCore_start st cfg (c, w) = (Raise (RuntimeError ''Sing-box is started already''), c, w)"
  by (simp add: SingBoxCore_start_def Let_def started_def)

text \<open>
  Claim C1. The service holds a Sing-box core whose process runs, a session with a
  recorded peer is active, the raw text builds a \<^verbatim>\<open>SingBoxConfig\<close> and the executable can
  be launched. Then \<^verbatim>\<open>singbox_start\<close> returns normally, and what it did is, in this order:
  terminate the running process (kill it if it outlives the wait) and fire its stop
  hooks; launch a new process, write it the transformed config (allow-list applied, a
  silent log level raised) and close its stdin, start the reader and fire the start
  hooks. The old process has exited, the new one runs and is the one the service holds.
  The guard of \<^verbatim>\<open>SingBoxCore.start\<close> (lemma \<open>start_started\<close>) is never met on this path,
  because the new core object has no process yet.
\<close>

theorem singbox_start_replaces_running_core:
  assumes enabled: "SINGBOX_ENABLED st"
    and held: "singbox_core s = Some c"
    and running: "process c = Some p" "\<not> exited w p" "p < next_pid w"
    and session: "connection s = Some conn" "peer conn = Some ip"
    and config: "SingBoxConfig_init st loads raw ip = Inr cfg"
    and level: "silent_to_warn (items cfg) = Inr d"
    and launch: "launchable w"
  shows "fst (singbox_start st loads raw (s, w)) = Return ()
    \<and> trace (snd (snd (singbox_start st loads raw (s, w))))
        = trace w
          @ [Terminate p] @ (if ignores_terminate w p then [Kill p] else [])
          @ map HookThread (on_stop_funcs c)
          @ [Popen (next_pid w) (SINGBOX_EXECUTABLE_PATH st) (SINGBOX_WORKING_DIR st),
             StdinWrite (next_pid w) d, StdinClose (next_pid w),
             ReaderThread (next_pid w) (DEBUG st)]
          @ map HookThread (peer_hooks conn ''on_singbox_start'' Peer_on_singbox_start)
    \<and> exited (snd (snd (singbox_start st loads raw (s, w)))) p
    \<and> \<not> exited (snd (snd (singbox_start st loads raw (s, w)))) (next_pid w)
    \<and> map_option process (singbox_core (fst (snd (singbox_start st loads raw (s, w)))))
        = Some (Some (next_pid w))
    \<and> connection (fst (snd (singbox_start st loads raw (s, w)))) = connection s"
proof -
  let ?w1 = "w\<lparr>exited := (exited w)(p := True),
          trace := trace w @ [Terminate p]
            @ (if ignores_terminate w p then [Kill p] else [])
            @ map HookThread (on_stop_funcs c)\<rparr>"
  have stop: "singbox_stop (s, w) = (Return (), s\<lparr>singbox_core := None\<rparr>, ?w1)"
    by (simp add: singbox_stop_def Let_def held stop_running [OF running(1,2)])
  let ?c0 = "SingBoxCore_init (SINGBOX_EXECUTABLE_PATH st) (SINGBOX_WORKING_DIR st) ?w1"
  let ?c1 = "if ''on_singbox_start'' \<in> set (root_attrs conn)
             then on_start Peer_on_singbox_start ?c0 else ?c0"
  let ?c2 = "if ''on_singbox_stop'' \<in> set (root_attrs conn)
             then on_stop Peer_on_singbox_stop ?c1 else ?c1"
  have fresh: "process ?c2 = None"
    by (simp add: SingBoxCore_init_def on_start_def on_stop_def)
  have hooks: "on_start_funcs ?c2 = peer_hooks conn ''on_singbox_start'' Peer_on_singbox_start"
    by (simp add: SingBoxCore_init_def on_start_def on_stop_def peer_hooks_def)
  have paths: "executable_path ?c2 = SINGBOX_EXECUTABLE_PATH st"
      "working_dir ?c2 = SINGBOX_WORKING_DIR st"
    by (simp_all add: SingBoxCore_init_def on_start_def on_stop_def)
  have launch1: "launchable ?w1" using launch by simp
  note started = start_fresh [OF fresh level launch1, of st]
  have unfolded: "singbox_start st loads raw (s, w) =
     (fst (SingBoxCore_start st cfg (?c2, ?w1)),
      s\<lparr>singbox_core := Some (fst (snd (SingBoxCore_start st cfg (?c2, ?w1))))\<rparr>,
      snd (snd (SingBoxCore_start st cfg (?c2, ?w1))))"
    using enabled held session config
    by (simp add: singbox_start_def stop Let_def)
  show ?thesis
    unfolding unfolded started
    using running(3) by (simp add: hooks paths)
qed


theorem singbox_start_replaces_running_core_witness:
  "fst (singbox_start sample_settings sample_loads
          (RawText ''{\"log\": {\"level\": \"silent\"}, \"inbounds\": [{\"tag\": \"a\"}, {\"tag\": \"b\"}]}'')
          (sample_service, sample_world)) = Return ()
   \<and> trace (snd (snd (singbox_start sample_settings sample_loads
          (RawText ''{\"log\": {\"level\": \"silent\"}, \"inbounds\": [{\"tag\": \"a\"}, {\"tag\": \"b\"}]}'')
          (sample_service, sample_world))))
     = [Terminate 0, HookThread Peer_on_singbox_stop,
        Popen 1 ''/usr/local/bin/sing-box'' ''/var/lib/marzban-node'',
        StdinWrite 1 [(JStr ''log'', JObj [(''level'', JStr ''warn'')]),
                      (JStr ''inbounds'', JArr [JObj [(''tag'', JStr ''a'')]])],
        StdinClose 1, ReaderThread 1 False, HookThread Peer_on_singbox_start]"
  using singbox_start_replaces_running_core
    [of sample_settings sample_service sample_core 0 sample_world sample_conn "''10.0.0.1''"
        sample_loads
        "RawText ''{\"log\": {\"level\": \"silent\"}, \"inbounds\": [{\"tag\": \"a\"}, {\"tag\": \"b\"}]}''"
        "\<lparr>items = [(JStr ''log'', JObj [(''level'', JStr ''silent'')]),
                   (JStr ''inbounds'', JArr [JObj [(''tag'', JStr ''a'')]])],
          ssl_cert = ''/ssl/cert.pem'', ssl_key = ''/ssl/key.pem'', peer_ip = ''10.0.0.1''\<rparr>"
        "[(JStr ''log'', JObj [(''level'', JStr ''warn'')]),
          (JStr ''inbounds'', JArr [JObj [(''tag'', JStr ''a'')]])]"]
  by (simp add: sample_settings_def sample_service_def sample_core_def sample_world_def
        sample_conn_def sample_loads_def SingBoxConfig_init_def apply_filters_def
        inbounds_key_def silent_to_warn_def peer_hooks_def)

text \<open>
  The order of \<^verbatim>\<open>singbox_start\<close> when the config cannot be built: the core that was held
  has been stopped and dropped before the failure is raised.
\<close>

lemma singbox_start_bad_config:
  assumes enabled: "SINGBOX_ENABLED st"
    and session: "connection s = Some conn" "peer conn = Some ip"
    and bad: "SingBoxConfig_init st loads config ip = Inl err"
  shows "singbox_start st loads config (s, w) =
           (Raise err, s\<lparr>singbox_core := None\<rparr>,
            (case singbox_core s of None \<Rightarrow> w | Some c \<Rightarrow> snd (SingBoxCore_stop (c, w))))"
proof (cases "singbox_core s")
  case None
  then have "s\<lparr>singbox_core := None\<rparr> = s" by simp
  then show ?thesis
    using enabled session bad None by (simp add: singbox_start_def Let_def)
next
  case (Some c)
  then show ?thesis
    using enabled session bad by (simp add: singbox_start_def singbox_stop_def Let_def)
qed

lemma next_pid_stop: "next_pid (snd (SingBoxCore_stop (c, w))) = next_pid w"
  by (simp add: SingBoxCore_stop_def Let_def split: option.splits)

text \<open>
  Claim C2, as amended. With Sing-box enabled and a session with a recorded peer active,
  a raw text that is not JSON makes both calls raise the decode error and launch
  nothing. \<^verbatim>\<open>singbox_restart\<close> leaves the service and the world exactly as they were.
  \<^verbatim>\<open>singbox_start\<close> has by then stopped and dropped the core it held, if any; and without
  one it, too, changes nothing.
\<close>

theorem unparseable_config_launches_nothing:
  assumes enabled: "SINGBOX_ENABLED st"
    and session: "connection s = Some conn" "peer conn = Some ip"
    and bad: "loads raw = None"
  shows "singbox_restart st loads (RawText raw) (s, w) = (Raise JSONDecodeError, s, w)
    \<and> singbox_start st loads (RawText raw) (s, w) =
          (Raise JSONDecodeError, s\<lparr>singbox_core := None\<rparr>,
           (case singbox_core s of None \<Rightarrow> w | Some c \<Rightarrow> snd (SingBoxCore_stop (c, w))))
    \<and> next_pid (snd (snd (singbox_start st loads (RawText raw) (s, w)))) = next_pid w
    \<and> (singbox_core s = None \<longrightarrow>
          singbox_start st loads (RawText raw) (s, w) = (Raise JSONDecodeError, s, w))"
proof -
  have init: "SingBoxConfig_init st loads (RawText raw) ip = Inl JSONDecodeError"
    by (simp add: SingBoxConfig_init_def bad)
  have restart: "singbox_restart st loads (RawText raw) (s, w) = (Raise JSONDecodeError, s, w)"
    using enabled session by (simp add: singbox_restart_def Let_def init)
  note start = singbox_start_bad_config [OF enabled session init, of w]
  have pid: "next_pid (snd (snd (singbox_start st loads (RawText raw) (s, w)))) = next_pid w"
    by (simp add: start next_pid_stop split: option.splits)
  have none: "singbox_start st loads (RawText raw) (s, w) = (Raise JSONDecodeError, s, w)"
    if "singbox_core s = None"
  proof -
    from that have "s\<lparr>singbox_core := None\<rparr> = s" by simp
    with that show ?thesis by (simp add: start)
  qed
  from restart start pid none show ?thesis by simp
qed

theorem unparseable_config_launches_nothing_witness:
  "singbox_restart sample_settings sample_loads (RawText ''not json'')
     (sample_service, sample_world)
   = (Raise JSONDecodeError, sample_service, sample_world)
   \<and> fst (singbox_start sample_settings sample_loads (RawText ''not json'')
            (sample_service\<lparr>singbox_core := None\<rparr>, sample_world))
     = Raise JSONDecodeError
   \<and> snd (singbox_start sample_settings sample_loads (RawText ''not json'')
            (sample_service\<lparr>singbox_core := None\<rparr>, sample_world))
     = (sample_service\<lparr>singbox_core := None\<rparr>, sample_world)"
  using unparseable_config_launches_nothing
          [of sample_settings sample_service sample_conn "''10.0.0.1''" sample_loads
              "''not json''" sample_world]
        unparseable_config_launches_nothing
          [of sample_settings "sample_service\<lparr>singbox_core := None\<rparr>" sample_conn
              "''10.0.0.1''" sample_loads "''not json''" sample_world]
  by (simp add: sample_settings_def sample_service_def sample_conn_def sample_loads_def)

text \<open>
  Claim C2 as stated fails for \<^verbatim>\<open>singbox_start\<close>: process 0 runs before the call with a text
  that is not JSON; after it the process has been terminated and the service holds no
  core.
\<close>

theorem singbox_start_unparseable_stops_core_counterexample:
  "\<not> exited sample_world 0
   \<and> singbox_core sample_service = Some sample_core
   \<and> process sample_core = Some 0
   \<and> sample_loads ''not json'' = None
   \<and> fst (singbox_start sample_settings sample_loads (RawText ''not json'')
            (sample_service, sample_world)) = Raise JSONDecodeError
   \<and> exited (snd (snd (singbox_start sample_settings sample_loads (RawText ''not json'')
            (sample_service, sample_world)))) 0
   \<and> trace (snd (snd (singbox_start sample_settings sample_loads (RawText ''not json'')
            (sample_service, sample_world))))
       = [Terminate 0, HookThread Peer_on_singbox_stop]
   \<and> singbox_core (fst (snd (singbox_start sample_settings sample_loads (RawText ''not json'')
            (sample_service, sample_world)))) = None
   \<and> snd (singbox_start sample_settings sample_loads (RawText ''not json'')
            (sample_service, sample_world)) \<noteq> (sample_service, sample_world)"
  by (simp add: sample_settings_def sample_service_def sample_core_def sample_world_def
        sample_conn_def sample_loads_def singbox_start_def singbox_stop_def
        SingBoxCore_stop_def SingBoxConfig_init_def Let_def)

text \<open>
  \<^verbatim>\<open>XrayService.start\<close> has the same order, whatever \<^verbatim>\<open>XRayConfig\<close> is: the held core is
  stopped and dropped first, then the config is built.
\<close>

lemma start_stops_before_config:
  assumes held: "core s = Some x"
    and stopped: "fst (XRayCore_stop api (x, w)) = Return ()"
    and session: "connection s = Some conn" "peer conn = Some ip"
    and bad: "XRayConfig_init api raw ip = Inl err"
  shows "start api raw (s, w) =
           (Raise err, s\<lparr>core := None\<rparr>, snd (snd (XRayCore_stop api (x, w))))"
  using assms by (simp add: start_def stop_def Let_def)

lemma restart_builds_config_first:
  assumes session: "connection s = Some conn" "peer conn = Some ip"
    and bad: "XRayConfig_init api raw ip = Inl err"
  shows "restart api raw (s, w) = (Raise err, s, w)"
  using assms by (simp add: restart_def Let_def)

section \<open>Properties of the service\<close>

text \<open>
  Claim C6. The service has one \<open>connection\<close> attribute, so at most one session is
  active. With a session active: if it answers the ping and has its peer recorded, the
  candidate is closed and service and session stay as they were; if the ping raises
  \<^verbatim>\<open>TimeoutError\<close> or \<^verbatim>\<open>EOFError\<close>, or the session has no recorded peer, the candidate becomes
  the active session with its peer recorded. After the call the active session is the
  old one or the candidate.
\<close>

theorem on_connect_one_session:
  assumes active: "connection s = Some cur"
  shows "(ping_answer w (cid cur) = Return () \<and> peer cur \<noteq> None \<longrightarrow>
            on_connect conn (s, w)
              = (Return (), s, w\<lparr>trace := trace w @ [ConnClose (cid conn)]\<rparr>))
    \<and> (ping_answer w (cid cur) = Raise TimeoutError
          \<or> ping_answer w (cid cur) = Raise EOFError
          \<or> ping_answer w (cid cur) = Return () \<and> peer cur = None \<longrightarrow>
            on_connect conn (s, w)
              = (Return (),
                 s\<lparr>connection := Some (conn\<lparr>peer := Some (peername conn)\<rparr>)\<rparr>, w))
    \<and> (connection (fst (snd (on_connect conn (s, w)))) = Some cur
          \<or> connection (fst (snd (on_connect conn (s, w))))
               = Some (conn\<lparr>peer := Some (peername conn)\<rparr>))"
proof (intro conjI impI)
  assume "ping_answer w (cid cur) = Return () \<and> peer cur \<noteq> None"
  then show "on_connect conn (s, w)
      = (Return (), s, w\<lparr>trace := trace w @ [ConnClose (cid conn)]\<rparr>)"
    using active by (auto simp: on_connect_def Let_def)
next
  assume "ping_answer w (cid cur) = Raise TimeoutError
          \<or> ping_answer w (cid cur) = Raise EOFError
          \<or> ping_answer w (cid cur) = Return () \<and> peer cur = None"
  then show "on_connect conn (s, w)
      = (Return (), s\<lparr>connection := Some (conn\<lparr>peer := Some (peername conn)\<rparr>)\<rparr>, w)"
    using active by (auto simp: on_connect_def admit_def Let_def)
next
  show "connection (fst (snd (on_connect conn (s, w)))) = Some cur
          \<or> connection (fst (snd (on_connect conn (s, w))))
               = Some (conn\<lparr>peer := Some (peername conn)\<rparr>)"
    using active
    by (auto simp: on_connect_def admit_def Let_def split: outcome.splits option.splits)
qed

theorem on_connect_one_session_witness:
  "on_connect \<lparr>cid = 2, peer = None, peername = ''10.0.0.2'', root_attrs = []\<rparr>
     (sample_service, sample_world)
   = (Return (), sample_service, sample_world\<lparr>trace := [ConnClose 2]\<rparr>)
   \<and> on_connect \<lparr>cid = 2, peer = None, peername = ''10.0.0.2'', root_attrs = []\<rparr>
     (sample_service, sample_world\<lparr>ping_answer := (\<lambda>i. Raise EOFError)\<rparr>)
   = (Return (),
      sample_service\<lparr>connection :=
        Some \<lparr>cid = 2, peer = Some ''10.0.0.2'', peername = ''10.0.0.2'', root_attrs = []\<rparr>\<rparr>,
      sample_world\<lparr>ping_answer := (\<lambda>i. Raise EOFError)\<rparr>)"
  using on_connect_one_session
          [of sample_service sample_conn sample_world
              "\<lparr>cid = 2, peer = None, peername = ''10.0.0.2'', root_attrs = []\<rparr>"]
        on_connect_one_session
          [of sample_service sample_conn "sample_world\<lparr>ping_answer := (\<lambda>i. Raise EOFError)\<rparr>"
              "\<lparr>cid = 2, peer = None, peername = ''10.0.0.2'', root_attrs = []\<rparr>"]
  by (simp add: sample_service_def sample_conn_def sample_world_def)

lemma stop_stops:
  "process c = Some p \<Longrightarrow> exited (snd (SingBoxCore_stop (c, w))) p"
  by (simp add: SingBoxCore_stop_def Let_def)

lemma on_disconnect_active:
  assumes "connection s = Some cur" "cid conn = cid cur" "peer cur \<noteq> None"
    and "case core s of None \<Rightarrow> True | Some x \<Rightarrow> fst (XRayCore_stop api (x, w)) = Return ()"
  shows "on_disconnect api conn (s, w)
        = (Return (),
           s\<lparr>core := None, singbox_core := None, connection := None\<rparr>,
           (let w1 = (case core s of
                        None \<Rightarrow> w
                      | Some x \<Rightarrow> snd (snd (XRayCore_stop api (x, w))))
            in case singbox_core s of
                 None \<Rightarrow> w1
               | Some c \<Rightarrow> snd (SingBoxCore_stop (c, w1))))"
proof (cases "core s")
  case None
  with assms show ?thesis
    by (cases "singbox_core s") (auto simp: on_disconnect_def Let_def)
next
  case (Some x)
  with assms show ?thesis
    by (cases "singbox_core s") (auto simp: on_disconnect_def Let_def)
qed

text \<open>
  Claim C7, as amended. When the disconnecting connection is the active one (its peer
  recorded) and the Xray core's \<^verbatim>\<open>stop\<close>, if there is an Xray core, returns normally,
  \<^verbatim>\<open>on_disconnect\<close> stops the Xray core, then the Sing-box core, each only if present, and
  clears both cores and the session; the process of the Sing-box core has exited. When
  the connection is not the active one, nothing changes.
\<close>

theorem on_disconnect_stops_cores:
  "(connection s = Some cur \<and> cid conn = cid cur \<and> peer cur \<noteq> None
      \<and> (case core s of None \<Rightarrow> True | Some x \<Rightarrow> fst (XRayCore_stop api (x, w)) = Return ())
    \<longrightarrow>
      on_disconnect api conn (s, w)
        = (Return (),
           s\<lparr>core := None, singbox_core := None, connection := None\<rparr>,
           (let w1 = (case core s of
                        None \<Rightarrow> w
                      | Some x \<Rightarrow> snd (snd (XRayCore_stop api (x, w))))
            in case singbox_core s of
                 None \<Rightarrow> w1
               | Some c \<Rightarrow> snd (SingBoxCore_stop (c, w1))))
      \<and> (\<forall>c p. singbox_core s = Some c \<and> process c = Some p \<longrightarrow>
            exited (snd (snd (on_disconnect api conn (s, w)))) p))
   \<and> (connection s = None \<or> (\<exists>cur. connection s = Some cur \<and> cid conn \<noteq> cid cur)
        \<longrightarrow> on_disconnect api conn (s, w) = (Return (), s, w))"
proof (intro conjI impI allI)
  assume a: "connection s = Some cur \<and> cid conn = cid cur \<and> peer cur \<noteq> None
      \<and> (case core s of None \<Rightarrow> True | Some x \<Rightarrow> fst (XRayCore_stop api (x, w)) = Return ())"
  then have a1: "connection s = Some cur" and a2: "cid conn = cid cur"
    and a3: "peer cur \<noteq> None"
    and a4: "case core s of None \<Rightarrow> True
             | Some x \<Rightarrow> fst (XRayCore_stop api (x, w)) = Return ()"
    by blast+
  show "on_disconnect api conn (s, w)
        = (Return (),
           s\<lparr>core := None, singbox_core := None, connection := None\<rparr>,
           (let w1 = (case core s of
                        None \<Rightarrow> w
                      | Some x \<Rightarrow> snd (snd (XRayCore_stop api (x, w))))
            in case singbox_core s of
                 None \<Rightarrow> w1
               | Some c \<Rightarrow> snd (SingBoxCore_stop (c, w1))))"
    by (rule on_disconnect_active [OF a1 a2 a3 a4])
next
  fix c p
  assume a: "connection s = Some cur \<and> cid conn = cid cur \<and> peer cur \<noteq> None
      \<and> (case core s of None \<Rightarrow> True | Some x \<Rightarrow> fst (XRayCore_stop api (x, w)) = Return ())"
    and b: "singbox_core s = Some c \<and> process c = Some p"
  from a have a1: "connection s = Some cur" and a2: "cid conn = cid cur"
    and a3: "peer cur \<noteq> None"
    and a4: "case core s of None \<Rightarrow> True
             | Some x \<Rightarrow> fst (XRayCore_stop api (x, w)) = Return ()"
    by blast+
  have "on_disconnect api conn (s, w)
        = (Return (),
           s\<lparr>core := None, singbox_core := None, connection := None\<rparr>,
           (let w1 = (case core s of
                        None \<Rightarrow> w
                      | Some x \<Rightarrow> snd (snd (XRayCore_stop api (x, w))))
            in case singbox_core s of
                 None \<Rightarrow> w1
               | Some c \<Rightarrow> snd (SingBoxCore_stop (c, w1))))"
    by (rule on_disconnect_active [OF a1 a2 a3 a4])
  then show "exited (snd (snd (on_disconnect api conn (s, w)))) p"
    using b by (simp add: Let_def stop_stops)
next
  assume "connection s = None \<or> (\<exists>cur. connection s = Some cur \<and> cid conn \<noteq> cid cur)"
  then show "on_disconnect api conn (s, w) = (Return (), s, w)"
    by (auto simp: on_disconnect_def Let_def)
qed

theorem on_disconnect_stops_cores_witness:
  "on_disconnect failing_xray sample_conn (sample_service, sample_world)
   = (Return (),
      \<lparr>core = None, singbox_core = None, connection = None\<rparr>,
      sample_world\<lparr>exited := (\<lambda>p. False)(0 := True),
                   trace := [Terminate 0, HookThread Peer_on_singbox_stop]\<rparr>)
   \<and> on_disconnect failing_xray (sample_conn\<lparr>cid := 7\<rparr>) (sample_service, sample_world)
   = (Return (), sample_service, sample_world)"
  using on_disconnect_stops_cores
          [of sample_service sample_conn sample_conn failing_xray sample_world]
        on_disconnect_stops_cores
          [of sample_service sample_conn "sample_conn\<lparr>cid := 7\<rparr>" failing_xray sample_world]
  by (simp add: sample_service_def sample_conn_def sample_world_def sample_core_def
        SingBoxCore_stop_def Let_def)

text \<open>
  Claim C7 as stated fails where a stop fails: \<^verbatim>\<open>on_disconnect\<close> calls \<^verbatim>\<open>self.core.stop()\<close>
  outside any \<^verbatim>\<open>try\<close>. With an Xray core whose \<^verbatim>\<open>stop\<close> raises, the exception leaves the
  method: the Sing-box process still runs and the session is still the active one.
\<close>

theorem on_disconnect_stop_failure_counterexample:
  "connection (sample_service\<lparr>core := Some ()\<rparr>) = Some sample_conn
   \<and> fst (XRayCore_stop failing_xray ((), sample_world))
       = Raise (RuntimeError ''Xray is not started'')
   \<and> on_disconnect failing_xray sample_conn (sample_service\<lparr>core := Some ()\<rparr>, sample_world)
       = (Raise (RuntimeError ''Xray is not started''),
          sample_service\<lparr>core := Some ()\<rparr>, sample_world)
   \<and> singbox_core (sample_service\<lparr>core := Some ()\<rparr>) = Some sample_core
   \<and> process sample_core = Some 0
   \<and> \<not> exited sample_world 0"
  by (simp add: on_disconnect_def failing_xray_def sample_service_def sample_conn_def
        sample_world_def sample_core_def Let_def)

text \<open>
  Claim C10, as amended. While the service holds no Xray core object, \<^verbatim>\<open>fetch_logs\<close> returns
  \<^verbatim>\<open>None\<close> and leaves service and world untouched: no handler, no subscriber; the same
  holds for \<^verbatim>\<open>fetch_singbox_logs\<close> while it holds no Sing-box core object. And \<^verbatim>\<open>None\<close> is
  returned in no other case: a held core object gets a handler, whether or not a
  process runs.
\<close>

theorem fetch_logs_without_core:
  "(core s = None \<longrightarrow> fetch_logs api cb (s, w) = (Return None, s, w))
   \<and> (singbox_core s = None \<longrightarrow> fetch_singbox_logs cb (s, w) = (Return None, s, w))
   \<and> (fst (fetch_logs api cb (s, w)) = Return None \<longleftrightarrow> core s = None)
   \<and> (fst (fetch_singbox_logs cb (s, w)) = Return None \<longleftrightarrow> singbox_core s = None)"
  by (simp add: fetch_logs_def fetch_singbox_logs_def Let_def split: option.splits)

theorem fetch_logs_without_core_witness:
  "fetch_logs failing_xray 5 (sample_service, sample_world)
     = (Return None, sample_service, sample_world)
   \<and> fetch_singbox_logs 5 (sample_service\<lparr>singbox_core := None\<rparr>, sample_world)
     = (Return None, sample_service\<lparr>singbox_core := None\<rparr>, sample_world)"
  using fetch_logs_without_core [of sample_service failing_xray 5 sample_world]
        fetch_logs_without_core
          [of "sample_service\<lparr>singbox_core := None\<rparr>" failing_xray 5 sample_world]
  by (simp add: sample_service_def)

text \<open>
  Claim C10 as stated fails for a core that is held but not running: the test is
  \<^verbatim>\<open>if self.singbox_core\<close>, not \<^verbatim>\<open>started\<close>. With the process of the held core exited,
  \<^verbatim>\<open>fetch_singbox_logs\<close> returns a handler and a subscriber is registered.
\<close>

theorem fetch_singbox_logs_dead_core_counterexample:
  "singbox_core sample_service = Some sample_core
   \<and> process sample_core = Some 0
   \<and> \<not> started sample_core (sample_world\<lparr>exited := (\<lambda>p. True)\<rparr>)
   \<and> fetch_singbox_logs 5 (sample_service, sample_world\<lparr>exited := (\<lambda>p. True)\<rparr>)
       = (Return (Some \<lparr>handler_core = SingBox, callback = 5, active = True,
                         subscription = 1\<rparr>),
          sample_service\<lparr>singbox_core :=
            Some (sample_core\<lparr>temp_log_buffers := [(1, [ascii ''a'', ascii ''b''])]\<rparr>)\<rparr>,
          sample_world\<lparr>exited := (\<lambda>p. True)\<rparr>)"
  by (simp add: sample_service_def sample_core_def sample_world_def started_def
        fetch_singbox_logs_def get_logs_enter_def fresh_id_def deque_init_def
        deque_append_def Let_def)

text \<open>
  A held core that never ran is what a failed launch leaves behind: \<^verbatim>\<open>singbox_start\<close>
  assigns the new core before it starts it.
\<close>

lemma fetch_singbox_logs_after_failed_launch:
  "fst (singbox_start sample_settings sample_loads
          (RawText ''{\"log\": {\"level\": \"silent\"}, \"inbounds\": [{\"tag\": \"a\"}, {\"tag\": \"b\"}]}'')
          (sample_service\<lparr>singbox_core := None\<rparr>, sample_world\<lparr>launchable := False\<rparr>))
     = Raise OSError
   \<and> map_option process (singbox_core (fst (snd (singbox_start sample_settings sample_loads
          (RawText ''{\"log\": {\"level\": \"silent\"}, \"inbounds\": [{\"tag\": \"a\"}, {\"tag\": \"b\"}]}'')
          (sample_service\<lparr>singbox_core := None\<rparr>, sample_world\<lparr>launchable := False\<rparr>)))))
     = Some None
   \<and> fst (fetch_singbox_logs 5 (snd (singbox_start sample_settings sample_loads
          (RawText ''{\"log\": {\"level\": \"silent\"}, \"inbounds\": [{\"tag\": \"a\"}, {\"tag\": \"b\"}]}'')
          (sample_service\<lparr>singbox_core := None\<rparr>, sample_world\<lparr>launchable := False\<rparr>))))
     = Return (Some \<lparr>handler_core = SingBox, callback = 5, active = True,
                       subscription = 1\<rparr>)"
  by (simp add: sample_settings_def sample_service_def sample_world_def sample_conn_def
        sample_loads_def singbox_start_def SingBoxConfig_init_def apply_filters_def
        inbounds_key_def silent_to_warn_def SingBoxCore_init_def SingBoxCore_start_def
        started_def on_start_def on_stop_def fetch_singbox_logs_def get_logs_enter_def
        fresh_id_def deque_init_def Let_def)

text \<open>With a core the handler is made and its subscription registered.\<close>

lemma fetch_singbox_logs_with_core:
  "singbox_core s = Some c \<Longrightarrow>
     fetch_singbox_logs cb (s, w) =
       (Return (Some \<lparr>handler_core = SingBox, callback = cb, active = True,
                       subscription = fst (get_logs_enter c)\<rparr>),
        s\<lparr>singbox_core := Some (snd (get_logs_enter c))\<rparr>, w)"
  by (simp add: fetch_singbox_logs_def Let_def)

end
